theory Spec2Isabelle
  imports Main
begin

section \<open>Data model of the notification controller\<close>

text \<open>
  The controller \<^verbatim>\<open>backend/controllers/notificationController.js\<close> works on three
  Mongoose collections: notifications, users and buses. Documents are records, the
  collections are lists in insertion order, an ObjectId is a natural number (only
  equality of ids is ever used: \<^verbatim>\<open>a.toString() === b.toString()\<close>), and a field that
  may be \<^verbatim>\<open>null\<close> or \<^verbatim>\<open>undefined\<close> is an \<open>option\<close>.  Roles, types and priorities are
  the strings of the source.  Timestamps (\<^verbatim>\<open>createdAt\<close>, \<^verbatim>\<open>readAt\<close>) are left out.
\<close>

type_synonym objectId = nat

datatype jsval = JStr string | JNum nat

record user =
  user_id :: objectId
  user_name :: string
  user_role :: string
  assignedBus :: "objectId option"

record bus =
  bus_id :: objectId
  busNumber :: string
  driverId :: "objectId option"
  routeName :: "string option"

text \<open>
  The object handed to \<^verbatim>\<open>Notification.create\<close>.  \<open>relatedEntity\<close> is the pair
  \<^verbatim>\<open>{type, id}\<close>; \<open>metadata\<close> is the object's key/value list, \<open>None\<close> when the
  caller passes none.
\<close>

record notificationData =
  title :: string
  message :: string
  ntype :: string
  senderRole :: string
  senderId :: objectId
  receiverRole :: string
  receiverId :: "objectId option"
  priority :: string
  relatedEntity :: "(string \<times> objectId) option"
  metadata :: "(string \<times> jsval) list option"

text \<open>A stored notification: the data, the \<^verbatim>\<open>_id\<close> and the read flag.\<close>

record notification = notificationData +
  nid :: objectId
  isRead :: bool

record db =
  notifications :: "notification list"
  users :: "user list"
  buses :: "bus list"

text \<open>\<^verbatim>\<open>notification.metadata?.intendedRole\<close>: \<open>None\<close> is \<^verbatim>\<open>undefined\<close>.\<close>

definition intendedRole :: "'a notificationData_scheme \<Rightarrow> jsval option" where
  "intendedRole n = (case metadata n of None \<Rightarrow> None | Some kv \<Rightarrow> map_of kv ''intendedRole'')"

section \<open>Access checks of the single-record handlers\<close>

text \<open>
  \<^verbatim>\<open>getNotification\<close>, lines 83-87:
  \<^verbatim>\<open>
  const hasAccess =
    notification.receiverId && notification.receiverId.toString() === userId.toString() ||
    notification.receiverRole === userRole ||
    notification.receiverRole === 'all' ||
    (userRole === 'admin' && notification.metadata?.intendedRole === 'admin');
  \<close>
\<close>

definition getNotification_hasAccess :: "notification \<Rightarrow> user \<Rightarrow> bool" where
  "getNotification_hasAccess n u =
     ((case receiverId n of None \<Rightarrow> False | Some r \<Rightarrow> r = user_id u) \<or>
      receiverRole n = user_role u \<or>
      receiverRole n = ''all'' \<or>
      (user_role u = ''admin'' \<and> intendedRole n = Some (JStr ''admin'')))"

text \<open>\<^verbatim>\<open>markAsRead\<close>, lines 119-123: the same expression, written out again.\<close>

definition markAsRead_hasAccess :: "notification \<Rightarrow> user \<Rightarrow> bool" where
  "markAsRead_hasAccess n u =
     ((case receiverId n of None \<Rightarrow> False | Some r \<Rightarrow> r = user_id u) \<or>
      receiverRole n = user_role u \<or>
      receiverRole n = ''all'' \<or>
      (user_role u = ''admin'' \<and> intendedRole n = Some (JStr ''admin'')))"

text \<open>
  \<^verbatim>\<open>deleteNotification\<close>, lines 414-418:
  \<^verbatim>\<open>
  const hasAccess =
    notification.receiverId && notification.receiverId.toString() === userId.toString() ||
    notification.receiverRole === userRole ||
    notification.receiverRole === 'all' ||
    userRole === 'admin';
  \<close>
\<close>

definition deleteNotification_hasAccess :: "notification \<Rightarrow> user \<Rightarrow> bool" where
  "deleteNotification_hasAccess n u =
     ((case receiverId n of None \<Rightarrow> False | Some r \<Rightarrow> r = user_id u) \<or>
      receiverRole n = user_role u \<or>
      receiverRole n = ''all'' \<or>
      user_role u = ''admin'')"

section \<open>Responses\<close>

text \<open>
  A handler either answers with \<^verbatim>\<open>res.status(c).json({success, message, data, error})\<close>
  or lets an exception escape; \<^verbatim>\<open>asyncHandler\<close> hands an escaped exception to the
  error middleware, which is outside the controller, so it is the outcome \<open>Thrown\<close>
  carrying \<^verbatim>\<open>error.message\<close>.
\<close>

datatype payload = NoData | One notification | Many "notification list"

record response =
  status :: nat
  success :: bool
  resp_message :: string
  data :: payload
  error :: "string option"

datatype outcome = Responded response | Thrown string

definition failure :: "nat \<Rightarrow> string \<Rightarrow> response" where
  "failure c m = \<lparr>status = c, success = False, resp_message = m, data = NoData, error = None\<rparr>"

text \<open>\<^verbatim>\<open>a || b\<close> on an optional string field: \<^verbatim>\<open>undefined\<close> and the empty string are falsy.\<close>

definition orDefault :: "string option \<Rightarrow> string \<Rightarrow> string" where
  "orDefault a b = (case a of None \<Rightarrow> b | Some s \<Rightarrow> if s = [] then b else s)"

text \<open>A number inside a template literal: its decimal digits.\<close>

definition digit :: "nat \<Rightarrow> char" where
  "digit n = ''0123456789'' ! (n mod 10)"

fun show_nat :: "nat \<Rightarrow> string" where
  "show_nat n = (if n < 10 then [digit n] else show_nat (n div 10) @ [digit n])"

declare show_nat.simps [simp del]

section \<open>Creating notifications\<close>

text \<open>
  Modelled from the spec: \<^verbatim>\<open>models/Notification.js\<close> is not among the sources.  Section 3
  and 4.4 of the specification say that \<^verbatim>\<open>create\<close> assigns a unique id and the default
  \<^verbatim>\<open>isRead = false\<close>; here the new id is one more than the largest id stored.
\<close>

definition newId :: "notification list \<Rightarrow> objectId" where
  "newId ns = Suc (fold max (map nid ns) 0)"

text \<open>
  \<^verbatim>\<open>await Notification.create(data)\<close> either stores a document or throws (schema
  validation, a failing database).  When it throws is decided outside the controller,
  so it is the parameter \<open>E\<close>: \<open>E ns d = Some m\<close> says that creating \<open>d\<close> in the
  collection \<open>ns\<close> throws an error with message \<open>m\<close>.
\<close>

type_synonym createError = "notification list \<Rightarrow> notificationData \<Rightarrow> string option"

definition stored :: "notificationData \<Rightarrow> objectId \<Rightarrow> notification" where
  "stored d i = notificationData.extend d (notification.fields i False)"

definition Notification_create ::
  "createError \<Rightarrow> notification list \<Rightarrow> notificationData \<Rightarrow> string + (notification \<times> notification list)" where
  "Notification_create E ns d =
     (case E ns d of
        Some m \<Rightarrow> Inl m
      | None \<Rightarrow>
          (let n = stored d (newId ns)
           in Inr (n, ns @ [n])))"

text \<open>
  The iterations \<^verbatim>\<open>for (const x of xs) { const n = await Notification.create(...);
  notifications.push(n) }\<close>: the collection, the drafts still to create and the array
  \<^verbatim>\<open>notifications\<close> built so far.  A throw leaves the loop with the collection as it then
  is: what was created stays.
\<close>

fun createAll ::
  "createError \<Rightarrow> notification list \<Rightarrow> notificationData list \<Rightarrow> notification list
     \<Rightarrow> (string + notification list) \<times> notification list" where
  "createAll E ns [] acc = (Inr acc, ns)"
| "createAll E ns (d # ds) acc =
     (case Notification_create E ns d of
        Inl m \<Rightarrow> (Inl m, ns)
      | Inr (n, ns') \<Rightarrow> createAll E ns' ds (acc @ [n]))"

text \<open>
  The documents that creating the drafts \<open>ds\<close> one after the other adds to the
  collection \<open>ns\<close> when none of the creations throws.
\<close>

fun persisted :: "notification list \<Rightarrow> notificationData list \<Rightarrow> notification list" where
  "persisted ns [] = []"
| "persisted ns (x # xs) = (let n = stored x (newId ns) in n # persisted (ns @ [n]) xs)"

section \<open>sendTargetedNotification\<close>

record targetedBody =
  tb_title :: string
  tb_message :: string
  tb_type :: "string option"
  tb_priority :: "string option"
  targetType :: string

text \<open>\<^verbatim>\<open>bus.routeId?.routeName || 'Unknown Route'\<close>\<close>

definition routeNameOf :: "bus \<Rightarrow> string" where
  "routeNameOf b = orDefault (routeName b) ''Unknown Route''"

text \<open>Lines 234-251: the notification of one student.\<close>

definition studentData :: "targetedBody \<Rightarrow> user \<Rightarrow> bus \<Rightarrow> user \<Rightarrow> notificationData" where
  "studentData body u b student =
     \<lparr>title = tb_title body,
      message = tb_message body,
      ntype = orDefault (tb_type body) ''info'',
      senderRole = user_role u,
      senderId = user_id u,
      receiverRole = ''student'',
      receiverId = Some (user_id student),
      priority = orDefault (tb_priority body) ''medium'',
      relatedEntity = Some (''bus'', bus_id b),
      metadata = Some [(''busNumber'', JStr (busNumber b)), (''routeName'', JStr (routeNameOf b))]\<rparr>"

text \<open>Lines 266-286: the copy for the administrators.\<close>

definition adminCopyData :: "targetedBody \<Rightarrow> user \<Rightarrow> bus \<Rightarrow> nat \<Rightarrow> notificationData" where
  "adminCopyData body u b studentCount =
     \<lparr>title = ''[Driver: '' @ user_name u @ ''] '' @ tb_title body,
      message = ''To students on bus '' @ busNumber b @ '': '' @ tb_message body,
      ntype = ''info'',
      senderRole = ''driver'',
      senderId = user_id u,
      receiverRole = ''all'',
      receiverId = None,
      priority = orDefault (tb_priority body) ''medium'',
      relatedEntity = Some (''bus'', bus_id b),
      metadata = Some [(''intendedRole'', JStr ''admin''),
                       (''originalTarget'', JStr ''students''),
                       (''busNumber'', JStr (busNumber b)),
                       (''routeName'', JStr (routeNameOf b)),
                       (''studentCount'', JNum studentCount)]\<rparr>"

text \<open>Lines 291-304: \<^verbatim>\<open>targetType === 'admin'\<close>.\<close>

definition adminOnlyData :: "targetedBody \<Rightarrow> user \<Rightarrow> notificationData" where
  "adminOnlyData body u =
     \<lparr>title = ''[Driver: '' @ user_name u @ ''] '' @ tb_title body,
      message = tb_message body,
      ntype = orDefault (tb_type body) ''info'',
      senderRole = ''driver'',
      senderId = user_id u,
      receiverRole = ''all'',
      receiverId = None,
      priority = orDefault (tb_priority body) ''medium'',
      relatedEntity = None,
      metadata = Some [(''intendedRole'', JStr ''admin''), (''driverName'', JStr (user_name u))]\<rparr>"

text \<open>
  Lines 313-318, the answer after all creations, and lines 320-327, the \<^verbatim>\<open>catch\<close>.
  The \<^verbatim>\<open>populate('senderId', ...)\<close> before the answer only reads the sender's name,
  e-mail and role into the documents that are returned; \<open>data\<close> keeps the bare
  \<open>senderId\<close>.
\<close>

definition targetedSent :: "targetedBody \<Rightarrow> notification list \<Rightarrow> response" where
  "targetedSent body ns =
     \<lparr>status = 201, success = True,
      resp_message = ''Notification sent to '' @ show_nat (length ns) @ '' recipient(s)'' @
        (if targetType body = ''students''
         then '' ('' @ show_nat (length ns - 1) @ '' students + 1 admin copy)'' else []),
      data = Many ns, error = None\<rparr>"

definition targetedFailed :: "string \<Rightarrow> response" where
  "targetedFailed m =
     \<lparr>status = 500, success = False, resp_message = ''Failed to send notification'',
      data = NoData, error = Some m\<rparr>"

text \<open>
  \<^verbatim>\<open>Bus.findOne({ driverId: senderId })\<close> and
  \<^verbatim>\<open>User.find({ role: 'student', assignedBus: bus._id })\<close>.
\<close>

definition findBusOfDriver :: "db \<Rightarrow> objectId \<Rightarrow> bus option" where
  "findBusOfDriver d i = find (\<lambda>b. driverId b = Some i) (buses d)"

definition studentsOfBus :: "db \<Rightarrow> bus \<Rightarrow> user list" where
  "studentsOfBus d b =
     filter (\<lambda>s. user_role s = ''student'' \<and> assignedBus s = Some (bus_id b)) (users d)"

definition sendTargetedNotification ::
  "createError \<Rightarrow> db \<Rightarrow> user \<Rightarrow> targetedBody \<Rightarrow> outcome \<times> db" where
  \<open>sendTargetedNotification E d u body =
     (if user_role u \<noteq> ''driver'' then
        (Responded (failure 403 ''Only drivers can send targeted notifications''), d)
      else if targetType body \<notin> set [''students'', ''admin''] then
        (Responded (failure 400 ''Invalid target type. Must be "students" or "admin"''), d)
      else if targetType body = ''students'' then
        (case findBusOfDriver d (user_id u) of
           None \<Rightarrow> (Responded (failure 404 ''No bus assigned to you''), d)
         | Some b \<Rightarrow>
             (let students = studentsOfBus d b in
              case createAll E (notifications d) (map (studentData body u b) students) [] of
                (Inl m, ns) \<Rightarrow> (Responded (targetedFailed m), d\<lparr>notifications := ns\<rparr>)
              | (Inr created, ns) \<Rightarrow>
                  (case Notification_create E ns (adminCopyData body u b (length students)) of
                     Inl m \<Rightarrow> (Responded (targetedFailed m), d\<lparr>notifications := ns\<rparr>)
                   | Inr (n, ns') \<Rightarrow>
                       (Responded (targetedSent body (created @ [n])), d\<lparr>notifications := ns'\<rparr>))))
      else if targetType body = ''admin'' then
        (case Notification_create E (notifications d) (adminOnlyData body u) of
           Inl m \<Rightarrow> (Responded (targetedFailed m), d)
         | Inr (n, ns') \<Rightarrow> (Responded (targetedSent body [n]), d\<lparr>notifications := ns'\<rparr>))
      else (Responded (targetedSent body []), d))\<close>

section \<open>createNotification\<close>

record createBody =
  cb_title :: string
  cb_message :: string
  cb_type :: "string option"
  cb_receiverRole :: string
  cb_receiverId :: "objectId option"
  cb_priority :: "string option"
  cb_relatedEntity :: "(string \<times> objectId) option"

definition User_findById :: "db \<Rightarrow> objectId \<Rightarrow> user option" where
  "User_findById d i = find (\<lambda>x. user_id x = i) (users d)"

text \<open>Lines 375-385.\<close>

definition directData :: "createBody \<Rightarrow> user \<Rightarrow> notificationData" where
  "directData body u =
     \<lparr>title = cb_title body,
      message = cb_message body,
      ntype = orDefault (cb_type body) ''info'',
      senderRole = user_role u,
      senderId = user_id u,
      receiverRole = cb_receiverRole body,
      receiverId = cb_receiverId body,
      priority = orDefault (cb_priority body) ''medium'',
      relatedEntity = cb_relatedEntity body,
      metadata = None\<rparr>"

text \<open>
  Lines 348-373: the two checks before anything is created.  \<open>None\<close> lets the request
  through, \<open>Some r\<close> is the early \<^verbatim>\<open>return res.status(...)\<close>.
\<close>

definition validateReceiver :: "db \<Rightarrow> user \<Rightarrow> createBody \<Rightarrow> response option" where
  "validateReceiver d u body =
     (if cb_receiverRole body = ''admin'' \<and> user_role u \<noteq> ''admin'' then
        Some (failure 403 ''Only admins can send notifications to other admins'')
      else
        (case cb_receiverId body of
           None \<Rightarrow> None
         | Some rid \<Rightarrow>
             (case User_findById d rid of
                None \<Rightarrow> Some (failure 404 ''Receiver not found'')
              | Some receiver \<Rightarrow>
                  if user_role receiver \<noteq> cb_receiverRole body then
                    Some (failure 400 ''Receiver role does not match specified role'')
                  else None)))"

text \<open>
  The \<^verbatim>\<open>Notification.create\<close> of this handler is not inside a \<^verbatim>\<open>try\<close>: an error
  escapes the handler.
\<close>

definition createNotification ::
  "createError \<Rightarrow> db \<Rightarrow> user \<Rightarrow> createBody \<Rightarrow> outcome \<times> db" where
  "createNotification E d u body =
     (case validateReceiver d u body of
        Some r \<Rightarrow> (Responded r, d)
      | None \<Rightarrow>
          (case Notification_create E (notifications d) (directData body u) of
             Inl m \<Rightarrow> (Thrown m, d)
           | Inr (n, ns') \<Rightarrow>
               (Responded \<lparr>status = 201, success = True,
                           resp_message = ''Notification created successfully'',
                           data = One n, error = None\<rparr>,
                d\<lparr>notifications := ns'\<rparr>)))"

section \<open>broadcastNotification\<close>

text \<open>\<open>targetRoles = None\<close> is a body without the field (\<^verbatim>\<open>!targetRoles\<close>).\<close>

record broadcastBody =
  bb_title :: string
  bb_message :: string
  bb_type :: "string option"
  bb_priority :: "string option"
  targetRoles :: "string list option"

text \<open>Lines 525-534: the notification of one role.\<close>

definition roleData :: "broadcastBody \<Rightarrow> user \<Rightarrow> string \<Rightarrow> notificationData" where
  "roleData body u r =
     \<lparr>title = bb_title body,
      message = bb_message body,
      ntype = orDefault (bb_type body) ''info'',
      senderRole = ''admin'',
      senderId = user_id u,
      receiverRole = r,
      receiverId = None,
      priority = orDefault (bb_priority body) ''medium'',
      relatedEntity = None,
      metadata = None\<rparr>"

definition broadcastNotification ::
  "createError \<Rightarrow> db \<Rightarrow> user \<Rightarrow> broadcastBody \<Rightarrow> outcome \<times> db" where
  "broadcastNotification E d u body =
     (case targetRoles body of
        None \<Rightarrow> (Responded (failure 400 ''Target roles are required for broadcast''), d)
      | Some roles \<Rightarrow>
          if length roles = 0 then
            (Responded (failure 400 ''Target roles are required for broadcast''), d)
          else
            (case createAll E (notifications d) (map (roleData body u) roles) [] of
               (Inl m, ns) \<Rightarrow> (Thrown m, d\<lparr>notifications := ns\<rparr>)
             | (Inr created, ns) \<Rightarrow>
                 (Responded \<lparr>status = 201, success = True,
                             resp_message = ''Broadcast notification sent to '' @
                                            show_nat (length created) @ '' role(s)'',
                             data = Many created, error = None\<rparr>,
                  d\<lparr>notifications := ns\<rparr>)))"

section \<open>getNotification, markAsRead, deleteNotification\<close>

definition Notification_findById :: "db \<Rightarrow> objectId \<Rightarrow> notification option" where
  "Notification_findById d i = find (\<lambda>n. nid n = i) (notifications d)"

definition getNotification :: "db \<Rightarrow> user \<Rightarrow> objectId \<Rightarrow> outcome \<times> db" where
  "getNotification d u i =
     (case Notification_findById d i of
        None \<Rightarrow> (Responded (failure 404 ''Notification not found''), d)
      | Some n \<Rightarrow>
          if \<not> getNotification_hasAccess n u then
            (Responded (failure 403 ''Access denied to this notification''), d)
          else
            (Responded \<lparr>status = 200, success = True, resp_message = [],
                        data = One n, error = None\<rparr>, d))"

text \<open>
  Modelled from the spec: the document method \<^verbatim>\<open>notification.markAsRead()\<close> belongs to
  \<^verbatim>\<open>models/Notification.js\<close>, which is not among the sources.  Section 4.4 of the
  specification: it sets \<^verbatim>\<open>isRead = true\<close> on the stored record.
\<close>

definition doc_markAsRead :: "notification list \<Rightarrow> objectId \<Rightarrow> notification list" where
  "doc_markAsRead ns i = map (\<lambda>n. if nid n = i then n\<lparr>isRead := True\<rparr> else n) ns"

definition markAsRead :: "db \<Rightarrow> user \<Rightarrow> objectId \<Rightarrow> outcome \<times> db" where
  "markAsRead d u i =
     (case Notification_findById d i of
        None \<Rightarrow> (Responded (failure 404 ''Notification not found''), d)
      | Some n \<Rightarrow>
          if \<not> markAsRead_hasAccess n u then
            (Responded (failure 403 ''Access denied to this notification''), d)
          else
            (Responded \<lparr>status = 200, success = True,
                        resp_message = ''Notification marked as read'',
                        data = One (n\<lparr>isRead := True\<rparr>), error = None\<rparr>,
             d\<lparr>notifications := doc_markAsRead (notifications d) i\<rparr>))"

text \<open>\<^verbatim>\<open>Notification.findByIdAndDelete(id)\<close> removes the first document with that id.\<close>

fun findByIdAndDelete :: "notification list \<Rightarrow> objectId \<Rightarrow> notification list" where
  "findByIdAndDelete [] i = []"
| "findByIdAndDelete (n # ns) i = (if nid n = i then ns else n # findByIdAndDelete ns i)"

definition deleteNotification :: "db \<Rightarrow> user \<Rightarrow> objectId \<Rightarrow> outcome \<times> db" where
  "deleteNotification d u i =
     (case Notification_findById d i of
        None \<Rightarrow> (Responded (failure 404 ''Notification not found''), d)
      | Some n \<Rightarrow>
          if \<not> deleteNotification_hasAccess n u then
            (Responded (failure 403 ''Access denied to delete this notification''), d)
          else
            (Responded \<lparr>status = 200, success = True,
                        resp_message = ''Notification deleted successfully'',
                        data = NoData, error = None\<rparr>,
             d\<lparr>notifications := findByIdAndDelete (notifications d) i\<rparr>))"

section \<open>Query filters\<close>

text \<open>
  The MongoDB filters the controller builds: a list of \<^verbatim>\<open>$or\<close> clauses, each an
  equality on one field, and optional equalities on \<^verbatim>\<open>isRead\<close>, \<^verbatim>\<open>type\<close> and
  \<^verbatim>\<open>priority\<close>.  A document matches when one of the \<^verbatim>\<open>$or\<close> clauses holds and every
  equality that is present holds.
\<close>

datatype clause = ReceiverId objectId | ReceiverRole string | MetadataIntendedRole string

record filter_expr =
  f_or :: "clause list"
  f_isRead :: "bool option"
  f_type :: "string option"
  f_priority :: "string option"

fun clause_matches :: "clause \<Rightarrow> notification \<Rightarrow> bool" where
  "clause_matches (ReceiverId i) n = (receiverId n = Some i)"
| "clause_matches (ReceiverRole r) n = (receiverRole n = r)"
| "clause_matches (MetadataIntendedRole r) n = (intendedRole n = Some (JStr r))"

definition matches :: "filter_expr \<Rightarrow> notification \<Rightarrow> bool" where
  "matches f n =
     (list_ex (\<lambda>c. clause_matches c n) (f_or f) \<and>
      (case f_isRead f of None \<Rightarrow> True | Some b \<Rightarrow> isRead n = b) \<and>
      (case f_type f of None \<Rightarrow> True | Some t \<Rightarrow> ntype n = t) \<and>
      (case f_priority f of None \<Rightarrow> True | Some p \<Rightarrow> priority n = p))"

definition Notification_find :: "db \<Rightarrow> filter_expr \<Rightarrow> notification list" where
  "Notification_find d f = filter (matches f) (notifications d)"

text \<open>
  \<^verbatim>\<open>getNotifications\<close>, lines 10-32.  The query parameters are strings or absent;
  \<^verbatim>\<open>if (type)\<close> also skips the empty string.
\<close>

record listQuery =
  q_isRead :: "string option"
  q_type :: "string option"
  q_priority :: "string option"

definition truthy :: "string option \<Rightarrow> bool" where
  "truthy a = (case a of None \<Rightarrow> False | Some s \<Rightarrow> s \<noteq> [])"

definition getNotifications_filter :: "user \<Rightarrow> listQuery \<Rightarrow> filter_expr" where
  "getNotifications_filter u q =
     \<lparr>f_or = [ReceiverId (user_id u), ReceiverRole (user_role u), ReceiverRole ''all''] @
             (if user_role u = ''admin'' then [MetadataIntendedRole ''admin''] else []),
      f_isRead = (case q_isRead q of None \<Rightarrow> None | Some s \<Rightarrow> Some (s = ''true'')),
      f_type = (if truthy (q_type q) then q_type q else None),
      f_priority = (if truthy (q_priority q) then q_priority q else None)\<rparr>"

text \<open>\<^verbatim>\<open>markAllAsRead\<close>, lines 149-163.\<close>

definition markAllAsRead_filter :: "user \<Rightarrow> filter_expr" where
  "markAllAsRead_filter u =
     \<lparr>f_or = [ReceiverId (user_id u), ReceiverRole (user_role u), ReceiverRole ''all''] @
             (if user_role u = ''admin'' then [MetadataIntendedRole ''admin''] else []),
      f_isRead = Some False, f_type = None, f_priority = None\<rparr>"

text \<open>
  \<^verbatim>\<open>markAllAsRead\<close>, lines 165-173: \<^verbatim>\<open>updateMany\<close> sets \<^verbatim>\<open>isRead\<close> on every
  document the filter matches and reports how many there were.
\<close>

definition markAllAsRead :: "db \<Rightarrow> user \<Rightarrow> outcome \<times> db" where
  "markAllAsRead d u =
     (let f = markAllAsRead_filter u;
          modifiedCount = length (filter (matches f) (notifications d))
      in (Responded \<lparr>status = 200, success = True,
                      resp_message = show_nat modifiedCount @ '' notifications marked as read'',
                      data = NoData, error = None\<rparr>,
          d\<lparr>notifications :=
               map (\<lambda>n. if matches f n then n\<lparr>isRead := True\<rparr> else n) (notifications d)\<rparr>))"

text \<open>\<^verbatim>\<open>getNotificationStats\<close>, lines 442-448: the \<^verbatim>\<open>$match\<close> stage of the aggregation.\<close>

definition getNotificationStats_filter :: "user \<Rightarrow> filter_expr" where
  "getNotificationStats_filter u =
     \<lparr>f_or = [ReceiverId (user_id u), ReceiverRole (user_role u), ReceiverRole ''all''],
      f_isRead = None, f_type = None, f_priority = None\<rparr>"

text \<open>The status code of an answer; \<open>None\<close> when the handler threw.\<close>

definition statusOf :: "outcome \<Rightarrow> nat option" where
  "statusOf out = (case out of Responded r \<Rightarrow> Some (status r) | Thrown m \<Rightarrow> None)"

section \<open>Databases the handlers can produce\<close>

text \<open>
  The notifications collection starts empty and is changed only by the handlers of this
  controller; users and buses are maintained elsewhere and may change at any time.  The
  relation does not look at who calls a handler (the routes' role middleware only
  narrows that), so it covers every sequence of requests.
\<close>

inductive reachable :: "db \<Rightarrow> bool" where
  start: "notifications d = [] \<Longrightarrow> reachable d"
| directory: "reachable d \<Longrightarrow> reachable (d\<lparr>users := us, buses := bs\<rparr>)"
| targeted: "reachable d \<Longrightarrow> reachable (snd (sendTargetedNotification E d u tb))"
| direct: "reachable d \<Longrightarrow> reachable (snd (createNotification E d u cb))"
| broadcast: "reachable d \<Longrightarrow> reachable (snd (broadcastNotification E d u bb))"
| read: "reachable d \<Longrightarrow> reachable (snd (markAsRead d u i))"
| readAll: "reachable d \<Longrightarrow> reachable (snd (markAllAsRead d u))"
| deleted: "reachable d \<Longrightarrow> reachable (snd (deleteNotification d u i))"

text \<open>
  A notification tagged \<^verbatim>\<open>metadata.intendedRole = 'admin'\<close> is addressed to role
  \<^verbatim>\<open>all\<close>: what every draft of this controller satisfies.
\<close>

definition tagged_to_all :: "'a notificationData_scheme \<Rightarrow> bool" where
  "tagged_to_all n = (intendedRole n = Some (JStr ''admin'') \<longrightarrow> receiverRole n = ''all'')"

section \<open>Example data\<close>

text \<open>
  One administrator, three drivers, two students.  Dan drives bus B1, on which both
  students ride; Dee has no bus; Dov drives bus B2, on which nobody rides.  The collection
  of notifications starts empty.
\<close>

definition ex_admin :: user where
  "ex_admin = \<lparr>user_id = 1, user_name = ''Ada'', user_role = ''admin'', assignedBus = None\<rparr>"

definition ex_driver :: user where
  "ex_driver = \<lparr>user_id = 2, user_name = ''Dan'', user_role = ''driver'', assignedBus = None\<rparr>"

definition ex_student1 :: user where
  "ex_student1 = \<lparr>user_id = 3, user_name = ''Sam'', user_role = ''student'', assignedBus = Some 10\<rparr>"

definition ex_student2 :: user where
  "ex_student2 = \<lparr>user_id = 4, user_name = ''Sue'', user_role = ''student'', assignedBus = Some 10\<rparr>"

definition ex_driver2 :: user where
  "ex_driver2 = \<lparr>user_id = 5, user_name = ''Dee'', user_role = ''driver'', assignedBus = None\<rparr>"

definition ex_driver3 :: user where
  "ex_driver3 = \<lparr>user_id = 6, user_name = ''Dov'', user_role = ''driver'', assignedBus = None\<rparr>"

definition ex_bus :: bus where
  "ex_bus = \<lparr>bus_id = 10, busNumber = ''B1'', driverId = Some 2, routeName = Some ''North''\<rparr>"

definition ex_bus2 :: bus where
  "ex_bus2 = \<lparr>bus_id = 11, busNumber = ''B2'', driverId = Some 6, routeName = None\<rparr>"

definition ex_db :: db where
  "ex_db = \<lparr>notifications = [],
            users = [ex_admin, ex_driver, ex_student1, ex_student2, ex_driver2, ex_driver3],
            buses = [ex_bus, ex_bus2]\<rparr>"

text \<open>
  \<open>noError\<close>: no creation throws.  \<open>failAt k\<close>: the database stops accepting writes
  once the collection holds \<open>k\<close> documents.
\<close>

definition noError :: createError where
  "noError ns x = None"

definition failAt :: "nat \<Rightarrow> createError" where
  "failAt k ns x = (if length ns = k then Some ''connection lost'' else None)"

definition ex_toStudents :: targetedBody where
  "ex_toStudents = \<lparr>tb_title = ''Delay'', tb_message = ''Ten minutes late'', tb_type = None,
                    tb_priority = Some ''high'', targetType = ''students''\<rparr>"

definition ex_toAdmin :: targetedBody where
  "ex_toAdmin = \<lparr>tb_title = ''Brakes'', tb_message = ''Bus B1 needs service'', tb_type = None,
                 tb_priority = None, targetType = ''admin''\<rparr>"

definition ex_directMissing :: createBody where
  "ex_directMissing = \<lparr>cb_title = ''Fee'', cb_message = ''Your fee is due'', cb_type = None,
                cb_receiverRole = ''student'', cb_receiverId = Some 99, cb_priority = None,
                cb_relatedEntity = None\<rparr>"

definition ex_direct :: createBody where
  "ex_direct = \<lparr>cb_title = ''Fee'', cb_message = ''Your fee is due'', cb_type = None,
                cb_receiverRole = ''student'', cb_receiverId = Some 3, cb_priority = None,
                cb_relatedEntity = None\<rparr>"

definition ex_directToAdmin :: createBody where
  "ex_directToAdmin = \<lparr>cb_title = ''Hello'', cb_message = ''Hello admins'', cb_type = None,
                cb_receiverRole = ''admin'', cb_receiverId = None, cb_priority = None,
                cb_relatedEntity = None\<rparr>"

definition ex_broadcast :: broadcastBody where
  "ex_broadcast = \<lparr>bb_title = ''Holiday'', bb_message = ''No service on Friday'', bb_type = None,
                   bb_priority = None, targetRoles = Some [''driver'', ''student'']\<rparr>"

definition ex_query :: listQuery where
  "ex_query = \<lparr>q_isRead = None, q_type = None, q_priority = None\<rparr>"

text \<open>
  A notification record tagged for administrators and addressed to the drivers (no
  handler stores one like it; it only exercises the access checks and filters); the
  database after Ada has sent \<open>ex_direct\<close>; the database after Dan has sent
  \<open>ex_toAdmin\<close>.
\<close>

definition ex_tagged :: notification where
  "ex_tagged = \<lparr>title = ''Audit'', message = ''Driver log attached'', ntype = ''info'',
     senderRole = ''driver'', senderId = 2, receiverRole = ''driver'', receiverId = None,
     priority = ''medium'', relatedEntity = None,
     metadata = Some [(''intendedRole'', JStr ''admin'')], nid = 7, isRead = False\<rparr>"

definition ex_db_direct :: db where
  "ex_db_direct = snd (createNotification noError ex_db ex_admin ex_direct)"

definition ex_db_adminOnly :: db where
  "ex_db_adminOnly = snd (sendTargetedNotification noError ex_db ex_driver ex_toAdmin)"

section \<open>Theorems\<close>

lemmas ex_defs = ex_admin_def ex_driver_def ex_student1_def ex_student2_def ex_driver2_def
  ex_driver3_def ex_bus_def ex_bus2_def ex_db_def noError_def ex_toStudents_def ex_toAdmin_def ex_direct_def
  ex_directToAdmin_def ex_directMissing_def ex_broadcast_def ex_query_def

lemmas run_defs = sendTargetedNotification_def createNotification_def broadcastNotification_def
  getNotification_def markAsRead_def deleteNotification_def
  findBusOfDriver_def studentsOfBus_def User_findById_def Notification_findById_def
  validateReceiver_def Notification_create_def stored_def newId_def
  studentData_def adminCopyData_def adminOnlyData_def directData_def roleData_def
  routeNameOf_def orDefault_def targetedSent_def targetedFailed_def failure_def
  notificationData.defs notification.defs Let_def

lemmas access_defs = getNotification_hasAccess_def markAsRead_hasAccess_def
  deleteNotification_hasAccess_def intendedRole_def

subsection \<open>Stored documents and the creation loop\<close>

lemma truncate_stored: "notificationData.truncate (stored x i) = x"
  by (simp add: stored_def notificationData.defs notification.defs)

lemma stored_fields:
  "receiverRole (stored x i) = receiverRole x"
  "receiverId (stored x i) = receiverId x"
  "metadata (stored x i) = metadata x"
  "nid (stored x i) = i"
  "isRead (stored x i) = False"
  by (simp_all add: stored_def notificationData.defs notification.defs)

lemma truncate_fields:
  "receiverRole (notificationData.truncate c) = receiverRole c"
  "receiverId (notificationData.truncate c) = receiverId c"
  "metadata (notificationData.truncate c) = metadata c"
  by (simp_all add: notificationData.defs)

lemma create_throws: "E ns d = Some m \<Longrightarrow> Notification_create E ns d = Inl m"
  by (simp add: Notification_create_def)

lemma create_stores:
  "E ns d = None \<Longrightarrow>
     Notification_create E ns d = Inr (stored d (newId ns), ns @ [stored d (newId ns)])"
  by (simp add: Notification_create_def Let_def)

text \<open>
  What the loop leaves behind, whatever \<open>E\<close> does: the collection grows by the
  documents \<open>cs\<close> created for the first drafts, in order; either every draft was created,
  or the draft after the last created one threw the error that is returned.
\<close>

lemma createAll_result:
  "createAll E ns ds acc = (r, ns') \<Longrightarrow>
     \<exists>cs. ns' = ns @ cs \<and> length cs \<le> length ds \<and>
          map notificationData.truncate cs = take (length cs) ds \<and>
          (case r of
             Inr out \<Rightarrow> out = acc @ cs \<and> length cs = length ds
           | Inl m \<Rightarrow> length cs < length ds \<and> E ns' (ds ! length cs) = Some m)"
proof (induction ds arbitrary: ns acc)
  case Nil
  then show ?case by auto
next
  case (Cons x xs)
  show ?case
  proof (cases "E ns x")
    case (Some m)
    with Cons.prems have "r = Inl m" "ns' = ns"
      by (auto simp: create_throws)
    with Some show ?thesis by simp
  next
    case None
    let ?n = "stored x (newId ns)"
    from None Cons.prems have "createAll E (ns @ [?n]) xs (acc @ [?n]) = (r, ns')"
      by (simp add: create_stores)
    from Cons.IH[OF this] obtain cs where cs:
      "ns' = (ns @ [?n]) @ cs" "length cs \<le> length xs"
      "map notificationData.truncate cs = take (length cs) xs"
      "(case r of Inr out \<Rightarrow> out = (acc @ [?n]) @ cs \<and> length cs = length xs
         | Inl m \<Rightarrow> length cs < length xs \<and> E ns' (xs ! length cs) = Some m)"
      by blast
    show ?thesis
      apply (rule exI[of _ "?n # cs"])
      using cs by (auto simp: truncate_stored split: sum.splits)
  qed
qed

lemma createAll_ok:
  assumes "\<forall>ns x. E ns x = None"
  shows "\<exists>cs. createAll E ns ds acc = (Inr (acc @ cs), ns @ cs) \<and>
              map notificationData.truncate cs = ds"
proof -
  obtain r ns' where run: "createAll E ns ds acc = (r, ns')"
    by (cases "createAll E ns ds acc")
  from createAll_result[OF run] obtain cs where cs:
    "ns' = ns @ cs" "map notificationData.truncate cs = take (length cs) ds"
    "(case r of Inr out \<Rightarrow> out = acc @ cs \<and> length cs = length ds
       | Inl m \<Rightarrow> length cs < length ds \<and> E ns' (ds ! length cs) = Some m)"
    by blast
  from cs(3) assms obtain "r = Inr (acc @ cs)" "length cs = length ds"
    by (cases r) auto
  with cs run show ?thesis by auto
qed

lemma map_field_truncate:
  "map receiverRole cs = map receiverRole (map notificationData.truncate cs)"
  "map receiverId cs = map receiverId (map notificationData.truncate cs)"
  by (simp_all add: truncate_fields)

lemma status_failure: "status (failure c m) = c"
  by (simp add: failure_def)

lemma status_targeted: "status (targetedFailed m) = 500" "status (targetedSent body ns) = 201"
  by (simp_all add: targetedFailed_def targetedSent_def)

subsection \<open>Visibility of an administrators' copy\<close>

lemma adminOnly_sent:
  "sendTargetedNotification noError ex_db ex_driver ex_toAdmin =
     (Responded (targetedSent ex_toAdmin [stored (adminOnlyData ex_toAdmin ex_driver) 1]),
      ex_db\<lparr>notifications := [stored (adminOnlyData ex_toAdmin ex_driver) 1]\<rparr>)"
  by (simp add: ex_defs sendTargetedNotification_def Notification_create_def newId_def Let_def)

lemma ex_db_adminOnly_eq:
  "ex_db_adminOnly = ex_db\<lparr>notifications := [stored (adminOnlyData ex_toAdmin ex_driver) 1]\<rparr>"
  by (simp add: ex_db_adminOnly_def adminOnly_sent)

text \<open>
  C1.  A notification with \<^verbatim>\<open>receiverRole = 'all'\<close> and
  \<^verbatim>\<open>metadata.intendedRole = 'admin'\<close> is claimed to be hidden from every viewer who is
  neither an administrator nor its receiver.  The access expressions of
  \<^verbatim>\<open>getNotification\<close> and \<^verbatim>\<open>markAsRead\<close> let everybody through on
  \<^verbatim>\<open>receiverRole === 'all'\<close>, before the tag is looked at.  Here driver Dan sends a
  notification with \<^verbatim>\<open>targetType = 'admin'\<close> (the choice the form labels "Admin Only"),
  and student Sam reads it and marks it read: both handlers answer 200.
\<close>

theorem admin_only_copy_visible_to_student:
  "statusOf (fst (getNotification ex_db_adminOnly ex_student1 1)) = Some 200 \<and>
   statusOf (fst (markAsRead ex_db_adminOnly ex_student1 1)) = Some 200 \<and>
   user_role ex_student1 = ''student'' \<and>
   map receiverRole (notifications ex_db_adminOnly) = [''all''] \<and>
   map receiverId (notifications ex_db_adminOnly) = [None] \<and>
   map intendedRole (notifications ex_db_adminOnly) = [Some (JStr ''admin'')]"
  unfolding ex_db_adminOnly_eq
  by (simp add: getNotification_def markAsRead_def Notification_findById_def stored_fields
      access_defs adminOnlyData_def statusOf_def ex_student1_def)

subsection \<open>A direct notification to one student\<close>

lemma direct_created:
  "createNotification noError ex_db ex_admin ex_direct =
     (Responded \<lparr>status = 201, success = True,
                 resp_message = ''Notification created successfully'',
                 data = One (stored (directData ex_direct ex_admin) 1), error = None\<rparr>,
      ex_db\<lparr>notifications := [stored (directData ex_direct ex_admin) 1]\<rparr>)"
  by (simp add: ex_defs createNotification_def validateReceiver_def User_findById_def
      Notification_create_def newId_def Let_def)

lemma ex_db_direct_eq:
  "ex_db_direct = ex_db\<lparr>notifications := [stored (directData ex_direct ex_admin) 1]\<rparr>"
  by (simp add: ex_db_direct_def direct_created)

text \<open>
  C2, as claimed, at a concrete input: the administrator Ada creates a notification with
  \<^verbatim>\<open>receiverRole = 'student'\<close> and \<^verbatim>\<open>receiverId = 3\<close> (Sam); Sue, a student whose id
  is 4, asks for it and is answered 200, not 403.
\<close>

theorem direct_notification_visible_to_other_student:
  "map receiverRole (notifications ex_db_direct) = [''student''] \<and>
   map receiverId (notifications ex_db_direct) = [Some 3] \<and>
   map nid (notifications ex_db_direct) = [1] \<and>
   user_role ex_student2 = ''student'' \<and> user_id ex_student2 = 4 \<and>
   statusOf (fst (getNotification ex_db_direct ex_student2 1)) = Some 200"
  unfolding ex_db_direct_eq
  by (simp add: getNotification_def Notification_findById_def stored_fields
      access_defs directData_def statusOf_def ex_student2_def ex_direct_def)

text \<open>
  C2.  For a notification created through \<^verbatim>\<open>createNotification\<close> with
  \<^verbatim>\<open>receiverRole = 'student'\<close> and \<^verbatim>\<open>receiverId = S\<close>: the viewer with id \<open>S\<close>
  passes the access checks of view, mark-read and delete; every viewer whose role is
  \<^verbatim>\<open>student\<close> passes the view check too, because \<^verbatim>\<open>receiverRole\<close> equals the
  viewer's role; a driver whose id is not \<open>S\<close> does not pass it.
\<close>

theorem direct_student_notification_access:
  assumes role: "cb_receiverRole body = ''student''"
    and rid: "cb_receiverId body = Some S"
    and run: "createNotification E d a body = (Responded r, d')"
    and st: "status r = 201"
  shows "\<exists>n. data r = One n \<and> notifications d' = notifications d @ [n] \<and>
             receiverRole n = ''student'' \<and> receiverId n = Some S \<and>
             (\<forall>v. (user_id v = S \<longrightarrow>
                      getNotification_hasAccess n v \<and> markAsRead_hasAccess n v \<and>
                      deleteNotification_hasAccess n v) \<and>
                  (user_role v = ''student'' \<longrightarrow> getNotification_hasAccess n v) \<and>
                  (user_role v = ''driver'' \<and> user_id v \<noteq> S \<longrightarrow>
                      \<not> getNotification_hasAccess n v))"
proof -
  let ?x = "directData body a"
  let ?n = "stored ?x (newId (notifications d))"
  from run st have v: "validateReceiver d a body = None"
    by (cases "validateReceiver d a body")
       (auto simp: createNotification_def validateReceiver_def status_failure
             split: if_splits option.splits)
  with run have e: "E (notifications d) ?x = None"
    by (cases "E (notifications d) ?x") (auto simp: createNotification_def create_throws)
  from run v e have r: "data r = One ?n" "notifications d' = notifications d @ [?n]"
    by (auto simp: createNotification_def create_stores)
  have f: "receiverRole ?n = ''student''" "receiverId ?n = Some S"
    "intendedRole ?n = None"
    using role rid by (simp_all add: stored_fields directData_def intendedRole_def)
  have acc: "\<forall>v. (user_id v = S \<longrightarrow>
                      getNotification_hasAccess ?n v \<and> markAsRead_hasAccess ?n v \<and>
                      deleteNotification_hasAccess ?n v) \<and>
                  (user_role v = ''student'' \<longrightarrow> getNotification_hasAccess ?n v) \<and>
                  (user_role v = ''driver'' \<and> user_id v \<noteq> S \<longrightarrow>
                      \<not> getNotification_hasAccess ?n v)"
    using f by (auto simp: getNotification_hasAccess_def markAsRead_hasAccess_def
        deleteNotification_hasAccess_def)
  from r f acc show ?thesis by blast
qed

theorem direct_student_notification_access_witness:
  "\<exists>n. notifications ex_db_direct = notifications ex_db @ [n] \<and>
        receiverRole n = ''student'' \<and> receiverId n = Some 3 \<and>
        getNotification_hasAccess n ex_student1 \<and> markAsRead_hasAccess n ex_student1 \<and>
        deleteNotification_hasAccess n ex_student1 \<and>
        getNotification_hasAccess n ex_student2 \<and>
        \<not> getNotification_hasAccess n ex_driver"
proof -
  let ?r = "\<lparr>status = 201, success = True,
                 resp_message = ''Notification created successfully'',
                 data = One (stored (directData ex_direct ex_admin) 1), error = None\<rparr>"
  have h1: "cb_receiverRole ex_direct = ''student''" by (simp add: ex_defs)
  have h2: "cb_receiverId ex_direct = Some 3" by (simp add: ex_defs)
  have h3: "createNotification noError ex_db ex_admin ex_direct = (Responded ?r, ex_db_direct)"
    unfolding ex_db_direct_eq by (rule direct_created)
  have h4: "status ?r = 201" by simp
  have v: "user_id ex_student1 = 3" "user_role ex_student2 = ''student''"
    "user_role ex_driver = ''driver'' \<and> user_id ex_driver \<noteq> 3"
    by (simp_all add: ex_defs)
  from direct_student_notification_access[OF h1 h2 h3 h4] obtain n where n:
    "notifications ex_db_direct = notifications ex_db @ [n]"
    "receiverRole n = ''student''" "receiverId n = Some 3"
    "\<forall>v. (user_id v = 3 \<longrightarrow>
            getNotification_hasAccess n v \<and> markAsRead_hasAccess n v \<and>
            deleteNotification_hasAccess n v) \<and>
         (user_role v = ''student'' \<longrightarrow> getNotification_hasAccess n v) \<and>
         (user_role v = ''driver'' \<and> user_id v \<noteq> 3 \<longrightarrow> \<not> getNotification_hasAccess n v)"
    by blast
  from n(4) v have "getNotification_hasAccess n ex_student1 \<and> markAsRead_hasAccess n ex_student1 \<and>
        deleteNotification_hasAccess n ex_student1 \<and>
        getNotification_hasAccess n ex_student2 \<and>
        \<not> getNotification_hasAccess n ex_driver"
    by blast
  with n(1-3) show ?thesis by blast
qed

subsection \<open>The filter of the statistics\<close>

text \<open>
  \<^verbatim>\<open>getNotifications\<close> and \<^verbatim>\<open>markAllAsRead\<close> push the clause
  \<^verbatim>\<open>'metadata.intendedRole': 'admin'\<close> for an administrator, \<^verbatim>\<open>getNotificationStats\<close>
  does not.  The clause makes no difference for a viewer who is not an administrator,
  nor on a notification that is addressed to role \<^verbatim>\<open>all\<close> or does not carry the tag.
\<close>

lemma stats_filter_agrees_elsewhere:
  assumes "user_role u \<noteq> ''admin'' \<or> receiverRole n = ''all'' \<or> intendedRole n \<noteq> Some (JStr ''admin'')"
    and "q_isRead q = None" "q_type q = None" "q_priority q = None"
  shows "matches (getNotificationStats_filter u) n \<longleftrightarrow> matches (getNotifications_filter u q) n"
  using assms
  by (auto simp: matches_def getNotifications_filter_def getNotificationStats_filter_def truthy_def)

text \<open>
  Every handler keeps the collection free of notifications that carry the tag and are
  not addressed to role \<^verbatim>\<open>all\<close>: the tag is written only at lines 272-280 and
  297-301, both times together with \<^verbatim>\<open>receiverRole: 'all'\<close>.
\<close>

lemma tagged_to_all_truncate: "tagged_to_all (notificationData.truncate c) = tagged_to_all c"
  by (simp add: tagged_to_all_def intendedRole_def truncate_fields)

lemma tagged_to_all_stored: "tagged_to_all (stored x i) = tagged_to_all x"
  by (simp add: tagged_to_all_def intendedRole_def stored_fields)

lemma tagged_to_all_isRead: "tagged_to_all (n\<lparr>isRead := b\<rparr>) = tagged_to_all n"
  by (simp add: tagged_to_all_def intendedRole_def)

lemma tagged_to_all_drafts:
  "tagged_to_all (studentData tb u b s)" "tagged_to_all (adminCopyData tb u b k)"
  "tagged_to_all (adminOnlyData tb u)" "tagged_to_all (directData cb u)"
  "tagged_to_all (roleData bb u r)"
  by (simp_all add: tagged_to_all_def intendedRole_def studentData_def adminCopyData_def
      adminOnlyData_def directData_def roleData_def)

lemma create_keeps_tagged:
  assumes "Notification_create E ns x = Inr (n, ns')" "tagged_to_all x" "\<forall>c\<in>set ns. tagged_to_all c"
  shows "\<forall>c\<in>set ns'. tagged_to_all c"
  using assms
  by (cases "E ns x") (auto simp: Notification_create_def Let_def tagged_to_all_stored)

lemma createAll_keeps_tagged:
  assumes run: "createAll E ns ds acc = (r, ns')"
    and ds: "\<forall>x\<in>set ds. tagged_to_all x" and ns: "\<forall>c\<in>set ns. tagged_to_all c"
  shows "\<forall>c\<in>set ns'. tagged_to_all c"
proof -
  from createAll_result[OF run] obtain cs where cs: "ns' = ns @ cs"
    "map notificationData.truncate cs = take (length cs) ds" by blast
  have "tagged_to_all c" if "c \<in> set cs" for c
  proof -
    from that have "notificationData.truncate c \<in> set (map notificationData.truncate cs)"
      by simp
    with cs(2) have "notificationData.truncate c \<in> set ds"
      by (metis in_set_takeD)
    with ds have "tagged_to_all (notificationData.truncate c)" by blast
    then show ?thesis by (simp add: tagged_to_all_truncate)
  qed
  with cs(1) ns show ?thesis by auto
qed

lemma set_findByIdAndDelete: "set (findByIdAndDelete ns i) \<subseteq> set ns"
  by (induction ns) auto

lemma reachable_tagged_to_all:
  "reachable d \<Longrightarrow> \<forall>c\<in>set (notifications d). tagged_to_all c"
proof (induction rule: reachable.induct)
  case (start d)
  then show ?case by simp
next
  case (directory d us bs)
  then show ?case by simp
next
  case (targeted d E u tb)
  show ?case
  proof (cases "user_role u = ''driver'' \<and> targetType tb = ''students''")
    case False
    show ?thesis
    proof (cases "user_role u = ''driver'' \<and> targetType tb = ''admin''")
      case False
      with \<open>\<not> (user_role u = ''driver'' \<and> targetType tb = ''students'')\<close> targeted.IH
      show ?thesis by (auto simp: sendTargetedNotification_def)
    next
      case True
      show ?thesis
      proof (cases "Notification_create E (notifications d) (adminOnlyData tb u)")
        case (Inl m)
        with True targeted.IH show ?thesis by (simp add: sendTargetedNotification_def)
      next
        case (Inr p)
        obtain n ns' where p: "p = (n, ns')" by (cases p)
        from create_keeps_tagged[OF Inr[unfolded p] tagged_to_all_drafts(3) targeted.IH]
        have "\<forall>c\<in>set ns'. tagged_to_all c" .
        with True Inr p show ?thesis by (simp add: sendTargetedNotification_def)
      qed
    qed
  next
    case True
    show ?thesis
    proof (cases "findBusOfDriver d (user_id u)")
      case None
      with True targeted.IH show ?thesis by (simp add: sendTargetedNotification_def)
    next
      case (Some b)
      let ?sd = "map (studentData tb u b) (studentsOfBus d b)"
      let ?ac = "adminCopyData tb u b (length (studentsOfBus d b))"
      obtain res ns where loop: "createAll E (notifications d) ?sd [] = (res, ns)"
        by (cases "createAll E (notifications d) ?sd []")
      have ns: "\<forall>c\<in>set ns. tagged_to_all c"
        using createAll_keeps_tagged[OF loop _ targeted.IH] by (simp add: tagged_to_all_drafts)
      show ?thesis
      proof (cases res)
        case (Inl m)
        with True Some loop ns show ?thesis
          by (simp add: sendTargetedNotification_def Let_def)
      next
        case (Inr created)
        show ?thesis
        proof (cases "Notification_create E ns ?ac")
          case (Inl m)
          with True Some loop Inr ns show ?thesis
            by (simp add: sendTargetedNotification_def Let_def)
        next
          case inr: (Inr p)
          obtain n ns' where p: "p = (n, ns')" by (cases p)
          from create_keeps_tagged[OF inr[unfolded p] tagged_to_all_drafts(2) ns]
          have "\<forall>c\<in>set ns'. tagged_to_all c" .
          with True Some loop Inr inr p show ?thesis
            by (simp add: sendTargetedNotification_def Let_def)
        qed
      qed
    qed
  qed
next
  case (direct d E u cb)
  show ?case
  proof (cases "validateReceiver d u cb")
    case (Some r)
    with direct.IH show ?thesis by (simp add: createNotification_def)
  next
    case None
    show ?thesis
    proof (cases "Notification_create E (notifications d) (directData cb u)")
      case (Inl m)
      with None direct.IH show ?thesis by (simp add: createNotification_def)
    next
      case (Inr p)
      obtain n ns' where p: "p = (n, ns')" by (cases p)
      from create_keeps_tagged[OF Inr[unfolded p] tagged_to_all_drafts(4) direct.IH]
      have "\<forall>c\<in>set ns'. tagged_to_all c" .
      with None Inr p show ?thesis by (simp add: createNotification_def)
    qed
  qed
next
  case (broadcast d E u bb)
  show ?case
  proof (cases "targetRoles bb")
    case None
    with broadcast.IH show ?thesis by (simp add: broadcastNotification_def)
  next
    case (Some roles)
    obtain res ns where loop:
      "createAll E (notifications d) (map (roleData bb u) roles) [] = (res, ns)"
      by (cases "createAll E (notifications d) (map (roleData bb u) roles) []")
    have ns: "\<forall>c\<in>set ns. tagged_to_all c"
      using createAll_keeps_tagged[OF loop _ broadcast.IH] by (simp add: tagged_to_all_drafts)
    with Some loop broadcast.IH show ?thesis
      by (cases res) (simp_all add: broadcastNotification_def)
  qed
next
  case (read d u i)
  then show ?case
    by (auto simp: markAsRead_def doc_markAsRead_def tagged_to_all_isRead split: option.splits)
next
  case (readAll d u)
  then show ?case
    by (auto simp: markAllAsRead_def Let_def tagged_to_all_isRead)
next
  case (deleted d u i)
  then show ?case
    using set_findByIdAndDelete[of "notifications d" i]
    by (auto simp: deleteNotification_def split: option.splits)
qed

text \<open>
  C3.  On every database the handlers can produce, and for every viewer, the
  \<^verbatim>\<open>$match\<close> filter of \<^verbatim>\<open>getNotificationStats\<close> finds the same notifications as the
  listing filter of \<^verbatim>\<open>getNotifications\<close> (without the optional \<^verbatim>\<open>isRead\<close>,
  \<^verbatim>\<open>type\<close> and \<^verbatim>\<open>priority\<close> parameters); in particular every stored notification
  with \<^verbatim>\<open>metadata.intendedRole = 'admin'\<close> is matched by the statistics filter, for an
  administrator as for everybody else.
\<close>

theorem stats_filter_matches_listing:
  assumes reach: "reachable d"
    and q: "q_isRead q = None" "q_type q = None" "q_priority q = None"
  shows "Notification_find d (getNotificationStats_filter u) =
           Notification_find d (getNotifications_filter u q) \<and>
         (\<forall>n\<in>set (notifications d).
            intendedRole n = Some (JStr ''admin'') \<longrightarrow>
              matches (getNotificationStats_filter u) n \<and>
              matches (getNotifications_filter u q) n)"
proof -
  from reachable_tagged_to_all[OF reach]
  have inv: "\<forall>n\<in>set (notifications d). tagged_to_all n" .
  have same: "matches (getNotificationStats_filter u) n \<longleftrightarrow>
              matches (getNotifications_filter u q) n"
    if "n \<in> set (notifications d)" for n
  proof -
    from inv that have "receiverRole n = ''all'' \<or> intendedRole n \<noteq> Some (JStr ''admin'')"
      by (auto simp: tagged_to_all_def)
    then show ?thesis using stats_filter_agrees_elsewhere[OF _ q, of u n] by blast
  qed
  then have lists: "Notification_find d (getNotificationStats_filter u) =
                    Notification_find d (getNotifications_filter u q)"
    unfolding Notification_find_def by (intro filter_cong) auto
  have tagged: "matches (getNotificationStats_filter u) n \<and>
                matches (getNotifications_filter u q) n"
    if "n \<in> set (notifications d)" "intendedRole n = Some (JStr ''admin'')" for n
  proof -
    from inv that have "receiverRole n = ''all''" by (auto simp: tagged_to_all_def)
    then have "matches (getNotificationStats_filter u) n"
      by (simp add: matches_def getNotificationStats_filter_def)
    with same[OF that(1)] show ?thesis by simp
  qed
  from lists tagged show ?thesis by blast
qed

theorem stats_filter_matches_listing_witness:
  "reachable ex_db_adminOnly \<and>
   Notification_find ex_db_adminOnly (getNotificationStats_filter ex_admin) =
     Notification_find ex_db_adminOnly (getNotifications_filter ex_admin ex_query) \<and>
   Notification_find ex_db_adminOnly (getNotificationStats_filter ex_admin) =
     [stored (adminOnlyData ex_toAdmin ex_driver) 1] \<and>
   intendedRole (stored (adminOnlyData ex_toAdmin ex_driver) 1) = Some (JStr ''admin'')"
proof -
  have "reachable ex_db" by (rule reachable.start) (simp add: ex_db_def)
  then have h1: "reachable ex_db_adminOnly"
    unfolding ex_db_adminOnly_def by (rule reachable.targeted)
  have h2: "q_isRead ex_query = None" and h3: "q_type ex_query = None"
    and h4: "q_priority ex_query = None" by (simp_all add: ex_defs)
  note concl = stats_filter_matches_listing[OF h1 h2 h3 h4, of ex_admin, THEN conjunct1]
  have found: "Notification_find ex_db_adminOnly (getNotificationStats_filter ex_admin) =
     [stored (adminOnlyData ex_toAdmin ex_driver) 1]"
    by (simp add: ex_db_adminOnly_eq Notification_find_def matches_def
        getNotificationStats_filter_def stored_fields adminOnlyData_def)
  have tag: "intendedRole (stored (adminOnlyData ex_toAdmin ex_driver) 1) = Some (JStr ''admin'')"
    by (simp add: intendedRole_def stored_fields adminOnlyData_def)
  from h1 concl found tag show ?thesis by (simp only: simp_thms)
qed

subsection \<open>Fan-out of a driver's notification to the students\<close>

lemma targeted_students_loop:
  assumes drv: "user_role u = ''driver''"
    and tt: "targetType body = ''students''"
    and bus: "findBusOfDriver d (user_id u) = Some b"
    and ok: "(\<forall>ns x. E ns x = None) \<or>
             (\<exists>r d'. sendTargetedNotification E d u body = (Responded r, d') \<and> status r = 201)"
  shows "\<exists>cs. createAll E (notifications d)
                 (map (studentData body u b) (studentsOfBus d b)) [] =
                 (Inr cs, notifications d @ cs) \<and>
              map notificationData.truncate cs =
                 map (studentData body u b) (studentsOfBus d b) \<and>
              E (notifications d @ cs)
                (adminCopyData body u b (length (studentsOfBus d b))) = None"
  using ok
proof
  assume "\<forall>ns x. E ns x = None"
  with createAll_ok[of E "notifications d" "map (studentData body u b) (studentsOfBus d b)" "[]"]
  show ?thesis by auto
next
  let ?drafts = "map (studentData body u b) (studentsOfBus d b)"
  let ?ac = "adminCopyData body u b (length (studentsOfBus d b))"
  assume "\<exists>r d'. sendTargetedNotification E d u body = (Responded r, d') \<and> status r = 201"
  then obtain r d' where run: "sendTargetedNotification E d u body = (Responded r, d')"
    and st: "status r = 201" by blast
  obtain res ns where loop: "createAll E (notifications d) ?drafts [] = (res, ns)"
    by (cases "createAll E (notifications d) ?drafts []")
  from createAll_result[OF loop] obtain cs where cs:
    "ns = notifications d @ cs"
    "map notificationData.truncate cs = take (length cs) ?drafts"
    "(case res of Inr out \<Rightarrow> out = [] @ cs \<and> length cs = length ?drafts
       | Inl m \<Rightarrow> length cs < length ?drafts \<and> E ns (?drafts ! length cs) = Some m)"
    by blast
  have res: "res = Inr cs" and len: "length cs = length ?drafts"
  proof -
    show "res = Inr cs"
    proof (cases res)
      case (Inl m)
      with run drv tt bus loop have "r = targetedFailed m"
        by (auto simp: sendTargetedNotification_def Let_def)
      with st show ?thesis by (simp add: status_targeted)
    next
      case (Inr out)
      with cs(3) show ?thesis by simp
    qed
    then show "length cs = length ?drafts" using cs(3) by simp
  qed
  have e: "E ns ?ac = None"
  proof (cases "E ns ?ac")
    case None
    then show ?thesis .
  next
    case (Some m)
    with run drv tt bus loop res have "r = targetedFailed m"
      by (auto simp: sendTargetedNotification_def Let_def create_throws)
    with st show ?thesis by (simp add: status_targeted)
  qed
  from loop res cs(1,2) len e show ?thesis by simp
qed

text \<open>
  C4.  A driver whose bus has \<open>K\<close> students sends with \<^verbatim>\<open>targetType = 'students'\<close>.
  When no creation throws, and likewise whenever the handler answers 201, the answer
  carries the created documents and the collection has grown by exactly \<open>K + 1\<close>
  documents: \<open>K\<close> with \<^verbatim>\<open>receiverRole = 'student'\<close> and the \<^verbatim>\<open>receiverId\<close> of each
  student in turn, then one with \<^verbatim>\<open>receiverRole = 'all'\<close>, \<^verbatim>\<open>receiverId = null\<close> and
  \<^verbatim>\<open>metadata.intendedRole = 'admin'\<close>.  \<open>K\<close> may be 0.
\<close>

theorem targeted_students_creates_K_plus_1:
  assumes drv: "user_role u = ''driver''"
    and tt: "targetType body = ''students''"
    and bus: "findBusOfDriver d (user_id u) = Some b"
    and K: "length (studentsOfBus d b) = K"
    and ok: "(\<forall>ns x. E ns x = None) \<or>
             (\<exists>r d'. sendTargetedNotification E d u body = (Responded r, d') \<and> status r = 201)"
  shows "\<exists>cs c. sendTargetedNotification E d u body =
            (Responded (targetedSent body (cs @ [c])),
             d\<lparr>notifications := notifications d @ cs @ [c]\<rparr>)
          \<and> length cs = K
          \<and> map receiverRole cs = replicate K ''student''
          \<and> map receiverId cs = map (\<lambda>s. Some (user_id s)) (studentsOfBus d b)
          \<and> receiverRole c = ''all'' \<and> receiverId c = None
          \<and> intendedRole c = Some (JStr ''admin'')"
proof -
  let ?students = "studentsOfBus d b"
  let ?drafts = "map (studentData body u b) ?students"
  from targeted_students_loop[OF drv tt bus ok] obtain cs where
    loop: "createAll E (notifications d) ?drafts [] = (Inr cs, notifications d @ cs)"
    and data: "map notificationData.truncate cs = ?drafts"
    and e: "E (notifications d @ cs) (adminCopyData body u b (length ?students)) = None"
    by blast
  let ?ns = "notifications d @ cs"
  let ?c = "stored (adminCopyData body u b (length ?students)) (newId ?ns)"
  have copy: "Notification_create E ?ns (adminCopyData body u b (length ?students)) =
                Inr (?c, ?ns @ [?c])"
    using e by (simp add: create_stores)
  have run: "sendTargetedNotification E d u body =
               (Responded (targetedSent body (cs @ [?c])),
                d\<lparr>notifications := notifications d @ cs @ [?c]\<rparr>)"
    using drv tt bus loop copy by (simp add: sendTargetedNotification_def Let_def)
  have len: "length cs = K"
    using data K by (metis length_map)
  have roles: "map receiverRole cs = replicate K ''student''"
    unfolding map_field_truncate(1)[of cs] data
    using K by (simp add: studentData_def o_def map_replicate_const)
  have ids: "map receiverId cs = map (\<lambda>s. Some (user_id s)) ?students"
    unfolding map_field_truncate(2)[of cs] data
    by (simp add: studentData_def o_def)
  have c: "receiverRole ?c = ''all''" "receiverId ?c = None"
    "intendedRole ?c = Some (JStr ''admin'')"
    by (simp_all add: stored_fields adminCopyData_def intendedRole_def)
  from run len roles ids c show ?thesis by blast
qed

theorem targeted_students_creates_K_plus_1_witness:
  "(\<exists>cs c. sendTargetedNotification noError ex_db ex_driver ex_toStudents =
            (Responded (targetedSent ex_toStudents (cs @ [c])),
             ex_db\<lparr>notifications := notifications ex_db @ cs @ [c]\<rparr>)
          \<and> length cs = 2
          \<and> map receiverRole cs = [''student'', ''student'']
          \<and> map receiverId cs = [Some 3, Some 4]
          \<and> receiverRole c = ''all'' \<and> receiverId c = None
          \<and> intendedRole c = Some (JStr ''admin'')) \<and>
   (\<exists>c. sendTargetedNotification noError ex_db ex_driver3 ex_toStudents =
            (Responded (targetedSent ex_toStudents [c]),
             ex_db\<lparr>notifications := notifications ex_db @ [c]\<rparr>)
          \<and> receiverRole c = ''all'' \<and> receiverId c = None
          \<and> intendedRole c = Some (JStr ''admin''))"
proof -
  have h2: "targetType ex_toStudents = ''students''" by (simp add: ex_defs)
  have h5: "(\<forall>ns x. noError ns x = None) \<or>
       (\<exists>r d'. sendTargetedNotification noError ex_db ex_driver ex_toStudents = (Responded r, d') \<and>
               status r = 201)"
    by (simp add: noError_def)
  have h6: "(\<forall>ns x. noError ns x = None) \<or>
       (\<exists>r d'. sendTargetedNotification noError ex_db ex_driver3 ex_toStudents = (Responded r, d') \<and>
               status r = 201)"
    by (simp add: noError_def)
  have a1: "user_role ex_driver = ''driver''" by (simp add: ex_defs)
  have a3: "findBusOfDriver ex_db (user_id ex_driver) = Some ex_bus"
    by (simp add: ex_defs findBusOfDriver_def)
  have a4: "studentsOfBus ex_db ex_bus = [ex_student1, ex_student2]"
    by (simp add: ex_defs studentsOfBus_def)
  have a5: "length (studentsOfBus ex_db ex_bus) = 2" by (simp add: a4)
  have b1: "user_role ex_driver3 = ''driver''" by (simp add: ex_defs)
  have b3: "findBusOfDriver ex_db (user_id ex_driver3) = Some ex_bus2"
    by (simp add: ex_defs findBusOfDriver_def)
  have b4: "length (studentsOfBus ex_db ex_bus2) = 0"
    by (simp add: ex_defs studentsOfBus_def)
  have two: "replicate 2 ''student'' = [''student'', ''student'']"
    by (simp add: numeral_2_eq_2)
  have ids: "map (\<lambda>s. Some (user_id s)) [ex_student1, ex_student2] = [Some 3, Some 4]"
    by (simp add: ex_defs)
  note A = targeted_students_creates_K_plus_1[OF a1 h2 a3 a5 h5, unfolded a4 two ids]
  note B = targeted_students_creates_K_plus_1[OF b1 h2 b3 b4 h6]
  from B have B': "\<exists>c. sendTargetedNotification noError ex_db ex_driver3 ex_toStudents =
            (Responded (targetedSent ex_toStudents [c]),
             ex_db\<lparr>notifications := notifications ex_db @ [c]\<rparr>)
          \<and> receiverRole c = ''all'' \<and> receiverId c = None
          \<and> intendedRole c = Some (JStr ''admin'')"
    by auto
  from A B' show ?thesis by (rule conjI)
qed

subsection \<open>Delete access\<close>

text \<open>
  C5.  For every notification and viewer, the delete check holds exactly when the view
  check holds or the viewer's role is \<^verbatim>\<open>admin\<close>.
\<close>

theorem delete_access_is_view_or_admin:
  "deleteNotification_hasAccess n u \<longleftrightarrow> getNotification_hasAccess n u \<or> user_role u = ''admin''"
  unfolding deleteNotification_hasAccess_def getNotification_hasAccess_def by blast

theorem delete_access_is_view_or_admin_witness:
  "deleteNotification_hasAccess ex_tagged ex_admin \<and> getNotification_hasAccess ex_tagged ex_admin \<and>
   \<not> deleteNotification_hasAccess ex_tagged ex_student1 \<and>
   \<not> getNotification_hasAccess ex_tagged ex_student1"
proof -
  have a: "getNotification_hasAccess ex_tagged ex_admin"
    by (simp add: access_defs ex_tagged_def ex_defs)
  have b: "\<not> getNotification_hasAccess ex_tagged ex_student1" "user_role ex_student1 \<noteq> ''admin''"
    by (simp_all add: access_defs ex_tagged_def ex_defs)
  from a b delete_access_is_view_or_admin[of ex_tagged ex_admin]
    delete_access_is_view_or_admin[of ex_tagged ex_student1]
  show ?thesis by blast
qed

subsection \<open>The listing filter and the view check\<close>

lemma matches_list_filter:
  assumes "q_isRead q = None" "q_type q = None" "q_priority q = None"
  shows "matches (getNotifications_filter u q) n \<longleftrightarrow> getNotification_hasAccess n u"
  using assms
  by (cases "receiverId n")
     (auto simp: matches_def getNotifications_filter_def truthy_def getNotification_hasAccess_def)

text \<open>
  C6.  For a viewer whose role is not \<^verbatim>\<open>admin\<close>, and a listing request without the
  optional \<^verbatim>\<open>isRead\<close>, \<^verbatim>\<open>type\<close> and \<^verbatim>\<open>priority\<close> parameters, the listing filter
  matches a notification exactly when the view check of \<^verbatim>\<open>getNotification\<close> lets the
  viewer see it; so the notifications found are those of the collection that the viewer
  may view.
\<close>

theorem list_filter_matches_view_access:
  assumes "user_role u \<noteq> ''admin''"
    and "q_isRead q = None" "q_type q = None" "q_priority q = None"
  shows "(matches (getNotifications_filter u q) n \<longleftrightarrow> getNotification_hasAccess n u) \<and>
         set (Notification_find d (getNotifications_filter u q)) =
           {n \<in> set (notifications d). getNotification_hasAccess n u}"
  using matches_list_filter[OF assms(2-4)] by (auto simp: Notification_find_def)

theorem list_filter_matches_view_access_witness:
  "user_role ex_student2 \<noteq> ''admin'' \<and>
   q_isRead ex_query = None \<and> q_type ex_query = None \<and> q_priority ex_query = None \<and>
   (matches (getNotifications_filter ex_student2 ex_query) ex_tagged \<longleftrightarrow>
      getNotification_hasAccess ex_tagged ex_student2) \<and>
   set (Notification_find ex_db_direct (getNotifications_filter ex_student2 ex_query)) =
     {n \<in> set (notifications ex_db_direct). getNotification_hasAccess n ex_student2}"
proof -
  have h1: "user_role ex_student2 \<noteq> ''admin''" by (simp add: ex_defs)
  have h2: "q_isRead ex_query = None" and h3: "q_type ex_query = None"
    and h4: "q_priority ex_query = None" by (simp_all add: ex_defs)
  note concl = list_filter_matches_view_access[OF h1 h2 h3 h4, of ex_tagged ex_db_direct]
  from h1 h2 h3 h4 concl show ?thesis by (simp only: simp_thms)
qed

subsection \<open>Broadcast\<close>

lemma broadcast_loop:
  assumes tr: "targetRoles body = Some roles"
    and ne: "roles \<noteq> []"
    and ok: "(\<forall>ns x. E ns x = None) \<or>
             (\<exists>r d'. broadcastNotification E d u body = (Responded r, d'))"
  shows "\<exists>cs. createAll E (notifications d) (map (roleData body u) roles) [] =
                 (Inr cs, notifications d @ cs) \<and>
              map notificationData.truncate cs = map (roleData body u) roles"
  using ok
proof
  assume "\<forall>ns x. E ns x = None"
  with createAll_ok[of E "notifications d" "map (roleData body u) roles" "[]"]
  show ?thesis by auto
next
  let ?drafts = "map (roleData body u) roles"
  assume "\<exists>r d'. broadcastNotification E d u body = (Responded r, d')"
  then obtain r d' where run: "broadcastNotification E d u body = (Responded r, d')"
    by blast
  obtain res ns where loop: "createAll E (notifications d) ?drafts [] = (res, ns)"
    by (cases "createAll E (notifications d) ?drafts []")
  from createAll_result[OF loop] obtain cs where cs:
    "ns = notifications d @ cs"
    "map notificationData.truncate cs = take (length cs) ?drafts"
    "(case res of Inr out \<Rightarrow> out = [] @ cs \<and> length cs = length ?drafts
       | Inl m \<Rightarrow> length cs < length ?drafts \<and> E ns (?drafts ! length cs) = Some m)"
    by blast
  from run tr ne loop obtain out where "res = Inr out"
    by (cases res) (auto simp: broadcastNotification_def)
  with cs(3) have "res = Inr cs" "length cs = length ?drafts" by simp_all
  with loop cs(1,2) show ?thesis by simp
qed

text \<open>
  C7.  A broadcast to a non-empty list of roles, when no creation throws and likewise
  whenever the handler answers at all, answers 201 and adds one notification per role of
  the list, in order, each with that role as \<^verbatim>\<open>receiverRole\<close> and
  \<^verbatim>\<open>receiverId = null\<close>.  A broadcast whose \<^verbatim>\<open>targetRoles\<close> is missing or empty
  answers 400 and leaves the collection as it was.  (That the sender is an administrator
  is checked by the route's middleware before the handler runs; the handler itself does
  not look at the sender's role.)
\<close>

theorem broadcast_one_per_role:
  "(targetRoles body = Some roles \<and> roles \<noteq> [] \<and>
      ((\<forall>ns x. E ns x = None) \<or>
       (\<exists>r d'. broadcastNotification E d u body = (Responded r, d'))) \<longrightarrow>
      (\<exists>cs. broadcastNotification E d u body =
              (Responded \<lparr>status = 201, success = True,
                          resp_message = ''Broadcast notification sent to '' @
                                         show_nat (length roles) @ '' role(s)'',
                          data = Many cs, error = None\<rparr>,
               d\<lparr>notifications := notifications d @ cs\<rparr>)
          \<and> length cs = length roles
          \<and> map receiverRole cs = roles
          \<and> map receiverId cs = replicate (length roles) None)) \<and>
   (targetRoles body = None \<or> targetRoles body = Some [] \<longrightarrow>
      broadcastNotification E d u body =
        (Responded (failure 400 ''Target roles are required for broadcast''), d))"
proof (intro conjI impI)
  assume h: "targetRoles body = Some roles \<and> roles \<noteq> [] \<and>
      ((\<forall>ns x. E ns x = None) \<or>
       (\<exists>r d'. broadcastNotification E d u body = (Responded r, d')))"
  then have tr: "targetRoles body = Some roles" and ne: "roles \<noteq> []"
    and ok: "(\<forall>ns x. E ns x = None) \<or>
             (\<exists>r d'. broadcastNotification E d u body = (Responded r, d'))"
    by auto
  let ?drafts = "map (roleData body u) roles"
  from broadcast_loop[OF tr ne ok] obtain cs where
    loop: "createAll E (notifications d) ?drafts [] = (Inr cs, notifications d @ cs)"
    and data: "map notificationData.truncate cs = ?drafts"
    by blast
  have len: "length cs = length roles"
    using data by (metis length_map)
  have run: "broadcastNotification E d u body =
              (Responded \<lparr>status = 201, success = True,
                          resp_message = ''Broadcast notification sent to '' @
                                         show_nat (length roles) @ '' role(s)'',
                          data = Many cs, error = None\<rparr>,
               d\<lparr>notifications := notifications d @ cs\<rparr>)"
    using tr ne loop len by (simp add: broadcastNotification_def)
  have roles: "map receiverRole cs = roles"
    unfolding map_field_truncate(1)[of cs] data
    by (simp add: roleData_def o_def)
  have ids: "map receiverId cs = replicate (length roles) None"
    unfolding map_field_truncate(2)[of cs] data
    by (simp add: roleData_def o_def map_replicate_const)
  from run len roles ids
  show "\<exists>cs. broadcastNotification E d u body =
              (Responded \<lparr>status = 201, success = True,
                          resp_message = ''Broadcast notification sent to '' @
                                         show_nat (length roles) @ '' role(s)'',
                          data = Many cs, error = None\<rparr>,
               d\<lparr>notifications := notifications d @ cs\<rparr>)
          \<and> length cs = length roles
          \<and> map receiverRole cs = roles
          \<and> map receiverId cs = replicate (length roles) None"
    by blast
next
  assume "targetRoles body = None \<or> targetRoles body = Some []"
  then show "broadcastNotification E d u body =
        (Responded (failure 400 ''Target roles are required for broadcast''), d)"
    by (auto simp: broadcastNotification_def)
qed

theorem broadcast_one_per_role_witness:
  "(\<exists>cs. broadcastNotification noError ex_db ex_admin ex_broadcast =
          (Responded \<lparr>status = 201, success = True,
                      resp_message = ''Broadcast notification sent to 2 role(s)'',
                      data = Many cs, error = None\<rparr>,
           ex_db\<lparr>notifications := notifications ex_db @ cs\<rparr>)
        \<and> length cs = 2
        \<and> map receiverRole cs = [''driver'', ''student'']
        \<and> map receiverId cs = [None, None]) \<and>
   broadcastNotification noError ex_db ex_admin (ex_broadcast\<lparr>targetRoles := Some []\<rparr>) =
     (Responded (failure 400 ''Target roles are required for broadcast''), ex_db)"
proof -
  have h: "targetRoles ex_broadcast = Some [''driver'', ''student''] \<and>
           [''driver'', ''student''] \<noteq> [] \<and>
           ((\<forall>ns x. noError ns x = None) \<or>
            (\<exists>r d'. broadcastNotification noError ex_db ex_admin ex_broadcast = (Responded r, d')))"
    by (simp add: ex_defs)
  have two: "show_nat (length [''driver'', ''student'']) = ''2''"
    by (simp add: show_nat.simps digit_def)
  have a: "\<exists>cs. broadcastNotification noError ex_db ex_admin ex_broadcast =
          (Responded \<lparr>status = 201, success = True,
                      resp_message = ''Broadcast notification sent to 2 role(s)'',
                      data = Many cs, error = None\<rparr>,
           ex_db\<lparr>notifications := notifications ex_db @ cs\<rparr>)
        \<and> length cs = 2
        \<and> map receiverRole cs = [''driver'', ''student'']
        \<and> map receiverId cs = [None, None]"
    using broadcast_one_per_role[where body = ex_broadcast and roles = "[''driver'', ''student'']"
        and E = noError and d = ex_db and u = ex_admin, THEN conjunct1, THEN mp, OF h]
    unfolding two by (simp add: numeral_2_eq_2)
  have e: "targetRoles (ex_broadcast\<lparr>targetRoles := Some []\<rparr>) = None \<or>
           targetRoles (ex_broadcast\<lparr>targetRoles := Some []\<rparr>) = Some []"
    by simp
  note b = broadcast_one_per_role[where body = "ex_broadcast\<lparr>targetRoles := Some []\<rparr>"
        and E = noError and d = ex_db and u = ex_admin, THEN conjunct2, THEN mp, OF e]
  from a b show ?thesis by (rule conjI)
qed

subsection \<open>Rejected requests create nothing\<close>

lemma sendTargeted_rejected_unchanged:
  assumes "sendTargetedNotification E d u body = (Responded r, d')"
    and "status r \<in> {400, 403, 404}"
  shows "d' = d"
  using assms
  by (auto simp: sendTargetedNotification_def Let_def status_failure status_targeted
           split: if_splits option.splits prod.splits sum.splits)

lemma createNotification_rejected_unchanged:
  assumes "createNotification E d u body = (Responded r, d')"
    and "status r \<in> {400, 403, 404}"
  shows "d' = d"
  using assms
  by (auto simp: createNotification_def split: option.splits sum.splits)

lemma broadcast_rejected_unchanged:
  assumes "broadcastNotification E d u body = (Responded r, d')"
    and "status r \<in> {400, 403, 404}"
  shows "d' = d"
  using assms
  by (auto simp: broadcastNotification_def split: option.splits sum.splits if_splits prod.splits)

text \<open>
  C8.  A driver without a bus who sends with \<^verbatim>\<open>targetType = 'students'\<close> is answered
  404 and the database is unchanged; a sender who is not an administrator and addresses
  \<^verbatim>\<open>receiverRole = 'admin'\<close> directly is answered 403 and the database is unchanged;
  and whenever one of the three sending handlers answers 400, 403 or 404, the database
  is unchanged.
\<close>

theorem failed_precondition_creates_nothing:
  "(user_role u = ''driver'' \<and> targetType tb = ''students'' \<and>
      findBusOfDriver d (user_id u) = None \<longrightarrow>
        sendTargetedNotification E d u tb =
          (Responded (failure 404 ''No bus assigned to you''), d)) \<and>
   (cb_receiverRole cb = ''admin'' \<and> user_role u \<noteq> ''admin'' \<longrightarrow>
        createNotification E d u cb =
          (Responded (failure 403 ''Only admins can send notifications to other admins''), d)) \<and>
   (\<forall>r d'. status r \<in> {400, 403, 404} \<and>
        (sendTargetedNotification E d u tb = (Responded r, d') \<or>
         createNotification E d u cb = (Responded r, d') \<or>
         broadcastNotification E d u bb = (Responded r, d')) \<longrightarrow> d' = d)"
proof (intro conjI impI allI)
  assume "user_role u = ''driver'' \<and> targetType tb = ''students'' \<and>
      findBusOfDriver d (user_id u) = None"
  then show "sendTargetedNotification E d u tb =
          (Responded (failure 404 ''No bus assigned to you''), d)"
    by (simp add: sendTargetedNotification_def)
next
  assume "cb_receiverRole cb = ''admin'' \<and> user_role u \<noteq> ''admin''"
  then show "createNotification E d u cb =
          (Responded (failure 403 ''Only admins can send notifications to other admins''), d)"
    by (simp add: createNotification_def validateReceiver_def)
next
  fix r d'
  assume "status r \<in> {400, 403, 404} \<and>
        (sendTargetedNotification E d u tb = (Responded r, d') \<or>
         createNotification E d u cb = (Responded r, d') \<or>
         broadcastNotification E d u bb = (Responded r, d'))"
  then show "d' = d"
    using sendTargeted_rejected_unchanged createNotification_rejected_unchanged
      broadcast_rejected_unchanged by blast
qed

theorem failed_precondition_creates_nothing_witness:
  "sendTargetedNotification noError ex_db ex_driver2 ex_toStudents =
     (Responded (failure 404 ''No bus assigned to you''), ex_db) \<and>
   createNotification noError ex_db ex_driver ex_directToAdmin =
     (Responded (failure 403 ''Only admins can send notifications to other admins''), ex_db) \<and>
   fst (createNotification noError ex_db ex_admin ex_directMissing) =
     Responded (failure 404 ''Receiver not found'') \<and>
   snd (createNotification noError ex_db ex_admin ex_directMissing) = ex_db"
proof -
  have h1: "user_role ex_driver2 = ''driver'' \<and> targetType ex_toStudents = ''students'' \<and>
      findBusOfDriver ex_db (user_id ex_driver2) = None"
    by (simp add: ex_defs findBusOfDriver_def)
  have h2: "cb_receiverRole ex_directToAdmin = ''admin'' \<and> user_role ex_driver \<noteq> ''admin''"
    by (simp add: ex_defs)
  note a = failed_precondition_creates_nothing[where u = ex_driver2 and tb = ex_toStudents
      and d = ex_db and E = noError, THEN conjunct1, THEN mp, OF h1]
  note b = failed_precondition_creates_nothing[where u = ex_driver and cb = ex_directToAdmin
      and d = ex_db and E = noError, THEN conjunct2, THEN conjunct1, THEN mp, OF h2]
  let ?run = "createNotification noError ex_db ex_admin ex_directMissing"
  have c: "fst ?run = Responded (failure 404 ''Receiver not found'')"
    by (simp add: ex_defs createNotification_def validateReceiver_def User_findById_def)
  then have h3: "status (failure 404 ''Receiver not found'') \<in> {400, 403, 404} \<and>
        (sendTargetedNotification noError ex_db ex_admin ex_toStudents =
           (Responded (failure 404 ''Receiver not found''), snd ?run) \<or>
         ?run = (Responded (failure 404 ''Receiver not found''), snd ?run) \<or>
         broadcastNotification noError ex_db ex_admin ex_broadcast =
           (Responded (failure 404 ''Receiver not found''), snd ?run))"
    by (simp add: status_failure prod_eq_iff)
  note d = failed_precondition_creates_nothing[where u = ex_admin and cb = ex_directMissing
      and tb = ex_toStudents and bb = ex_broadcast
      and d = ex_db and E = noError, THEN conjunct2, THEN conjunct2, rule_format, OF h3]
  from a b c d show ?thesis by simp
qed

subsection \<open>A creation that fails in the middle of the fan-out\<close>

lemma fail1: "sendTargetedNotification (failAt 1) ex_db ex_driver ex_toStudents =
   (Responded (targetedFailed ''connection lost''),
    ex_db\<lparr>notifications := [stored (studentData ex_toStudents ex_driver ex_bus ex_student1) 1]\<rparr>)"
  by (simp add: ex_defs failAt_def run_defs)

lemma fail2: "sendTargetedNotification (failAt 2) ex_db ex_driver ex_toStudents =
   (Responded (targetedFailed ''connection lost''),
    ex_db\<lparr>notifications := [stored (studentData ex_toStudents ex_driver ex_bus ex_student1) 1,
                               stored (studentData ex_toStudents ex_driver ex_bus ex_student2) 2]\<rparr>)"
  by (simp add: ex_defs failAt_def run_defs)

text \<open>
  C9, as claimed, at a concrete input: the same request of driver Dan on the same
  database, once with the database failing at the second write and once at the third.
  In both runs a creation fails after notifications have been stored, one in the first
  run and two in the second, and the two answers are equal (status 500, the fixed
  message and the error's message): the answer does not tell how many were stored.
\<close>

theorem targeted_failure_hides_count:
  "fst (sendTargetedNotification (failAt 1) ex_db ex_driver ex_toStudents) =
   fst (sendTargetedNotification (failAt 2) ex_db ex_driver ex_toStudents) \<and>
   length (notifications (snd (sendTargetedNotification (failAt 1) ex_db ex_driver ex_toStudents))) = 1 \<and>
   length (notifications (snd (sendTargetedNotification (failAt 2) ex_db ex_driver ex_toStudents))) = 2"
  unfolding fail1 fail2 by (simp add: ex_db_def)

text \<open>
  The creation loop when the creation of draft number \<open>j\<close> is the first to throw, and
  when none throws.
\<close>

lemma createAll_fails_at:
  assumes "j < length ds"
    and "\<forall>i<j. E (ns @ persisted ns (take i ds)) (ds ! i) = None"
    and "E (ns @ persisted ns (take j ds)) (ds ! j) = Some m"
  shows "createAll E ns ds acc = (Inl m, ns @ persisted ns (take j ds))"
  using assms
proof (induction ds arbitrary: ns acc j)
  case Nil
  then show ?case by simp
next
  case (Cons x xs)
  show ?case
  proof (cases j)
    case 0
    with Cons.prems show ?thesis by (simp add: create_throws)
  next
    case (Suc k)
    let ?n = "stored x (newId ns)"
    from Cons.prems(2) Suc have first: "E ns x = None" by fastforce
    have k: "k < length xs" using Cons.prems(1) Suc by simp
    have before: "\<forall>i<k. E ((ns @ [?n]) @ persisted (ns @ [?n]) (take i xs)) (xs ! i) = None"
    proof (intro allI impI)
      fix i assume "i < k"
      then have "Suc i < j" using Suc by simp
      with Cons.prems(2) have "E (ns @ persisted ns (take (Suc i) (x # xs))) ((x # xs) ! Suc i) = None"
        by blast
      then show "E ((ns @ [?n]) @ persisted (ns @ [?n]) (take i xs)) (xs ! i) = None"
        by (simp add: Let_def)
    qed
    have at: "E ((ns @ [?n]) @ persisted (ns @ [?n]) (take k xs)) (xs ! k) = Some m"
      using Cons.prems(3) Suc by (simp add: Let_def)
    from Cons.IH[OF k before at, of "acc @ [?n]"] first Suc show ?thesis
      by (simp add: create_stores Let_def)
  qed
qed

lemma createAll_succeeds:
  assumes "\<forall>i<length ds. E (ns @ persisted ns (take i ds)) (ds ! i) = None"
  shows "createAll E ns ds acc = (Inr (acc @ persisted ns ds), ns @ persisted ns ds)"
  using assms
proof (induction ds arbitrary: ns acc)
  case Nil
  then show ?case by simp
next
  case (Cons x xs)
  let ?n = "stored x (newId ns)"
  from Cons.prems have first: "E ns x = None" by fastforce
  have rest: "\<forall>i<length xs. E ((ns @ [?n]) @ persisted (ns @ [?n]) (take i xs)) (xs ! i) = None"
  proof (intro allI impI)
    fix i assume "i < length xs"
    then have "Suc i < length (x # xs)" by simp
    with Cons.prems have "E (ns @ persisted ns (take (Suc i) (x # xs))) ((x # xs) ! Suc i) = None"
      by blast
    then show "E ((ns @ [?n]) @ persisted (ns @ [?n]) (take i xs)) (xs ! i) = None"
      by (simp add: Let_def)
  qed
  from Cons.IH[OF rest, of "acc @ [?n]"] first show ?case
    by (simp add: create_stores Let_def)
qed

text \<open>
  C9.  A driver with a bus sends with \<^verbatim>\<open>targetType = 'students'\<close>; the drafts are the
  students' notifications followed by the administrators' copy.  When the creations of
  the first \<open>j\<close> drafts succeed and the creation of the next one throws an error with
  message \<open>m\<close>, the handler answers with status 500, the fixed text
  \<^verbatim>\<open>Failed to send notification\<close> and \<open>m\<close>, with no data and no count, and the \<open>j\<close>
  notifications already created stay in the collection.
\<close>

theorem targeted_failure_keeps_created:
  assumes drv: "user_role u = ''driver''"
    and tt: "targetType body = ''students''"
    and bus: "findBusOfDriver d (user_id u) = Some b"
    and drafts: "drafts = map (studentData body u b) (studentsOfBus d b) @
                          [adminCopyData body u b (length (studentsOfBus d b))]"
    and j: "j < length drafts"
    and before: "\<forall>i<j. E (notifications d @ persisted (notifications d) (take i drafts))
                         (drafts ! i) = None"
    and fails: "E (notifications d @ persisted (notifications d) (take j drafts))
                  (drafts ! j) = Some m"
  shows "sendTargetedNotification E d u body =
           (Responded \<lparr>status = 500, success = False,
                       resp_message = ''Failed to send notification'',
                       data = NoData, error = Some m\<rparr>,
            d\<lparr>notifications :=
                 notifications d @ persisted (notifications d) (take j drafts)\<rparr>)"
proof -
  let ?sd = "map (studentData body u b) (studentsOfBus d b)"
  let ?ac = "adminCopyData body u b (length (studentsOfBus d b))"
  let ?ns = "notifications d"
  show ?thesis
  proof (cases "j < length ?sd")
    case True
    have tk: "take i drafts = take i ?sd" if "i \<le> j" for i
      using that True drafts by simp
    have nth: "drafts ! i = ?sd ! i" if "i \<le> j" for i
      using that True drafts by (simp add: nth_append)
    have b': "\<forall>i<j. E (?ns @ persisted ?ns (take i ?sd)) (?sd ! i) = None"
      using before tk nth by (metis less_imp_le)
    have f': "E (?ns @ persisted ?ns (take j ?sd)) (?sd ! j) = Some m"
      using fails tk[of j] nth[of j] by simp
    from createAll_fails_at[OF True b' f', of "[]"]
    have "createAll E ?ns ?sd [] = (Inl m, ?ns @ persisted ?ns (take j ?sd))" .
    with drv tt bus tk[of j] show ?thesis
      by (simp add: sendTargetedNotification_def Let_def targetedFailed_def)
  next
    case False
    with j drafts have jlen: "j = length ?sd" by simp
    have tk: "take i drafts = take i ?sd" if "i \<le> j" for i
      using that jlen drafts by simp
    have nth: "drafts ! i = ?sd ! i" if "i < j" for i
      using that jlen drafts by (simp add: nth_append)
    have b': "\<forall>i<length ?sd. E (?ns @ persisted ?ns (take i ?sd)) (?sd ! i) = None"
      using before tk nth jlen by (metis less_imp_le)
    from createAll_succeeds[OF b', of "[]"]
    have loop: "createAll E ?ns ?sd [] = (Inr (persisted ?ns ?sd), ?ns @ persisted ?ns ?sd)"
      by simp
    have tkj: "take j drafts = ?sd" using jlen drafts by simp
    have "drafts ! j = ?ac" using jlen drafts by (simp add: nth_append)
    with fails tkj have "E (?ns @ persisted ?ns ?sd) ?ac = Some m" by simp
    then have "Notification_create E (?ns @ persisted ?ns ?sd) ?ac = Inl m"
      by (rule create_throws)
    with drv tt bus loop tkj show ?thesis
      by (simp add: sendTargetedNotification_def Let_def targetedFailed_def)
  qed
qed

lemma ex_students: "studentsOfBus ex_db ex_bus = [ex_student1, ex_student2]"
  by (simp add: ex_defs studentsOfBus_def)

theorem targeted_failure_keeps_created_witness:
  "sendTargetedNotification (failAt 1) ex_db ex_driver ex_toStudents =
     (Responded \<lparr>status = 500, success = False,
                 resp_message = ''Failed to send notification'',
                 data = NoData, error = Some ''connection lost''\<rparr>,
      ex_db\<lparr>notifications :=
        [stored (studentData ex_toStudents ex_driver ex_bus ex_student1) 1]\<rparr>) \<and>
   sendTargetedNotification (failAt 2) ex_db ex_driver ex_toStudents =
     (Responded \<lparr>status = 500, success = False,
                 resp_message = ''Failed to send notification'',
                 data = NoData, error = Some ''connection lost''\<rparr>,
      ex_db\<lparr>notifications :=
        [stored (studentData ex_toStudents ex_driver ex_bus ex_student1) 1,
         stored (studentData ex_toStudents ex_driver ex_bus ex_student2) 2]\<rparr>)"
proof -
  let ?s1 = "studentData ex_toStudents ex_driver ex_bus ex_student1"
  let ?s2 = "studentData ex_toStudents ex_driver ex_bus ex_student2"
  let ?drafts = "[?s1, ?s2, adminCopyData ex_toStudents ex_driver ex_bus 2]"
  have h1: "user_role ex_driver = ''driver''" by (simp add: ex_defs)
  have h2: "targetType ex_toStudents = ''students''" by (simp add: ex_defs)
  have h3: "findBusOfDriver ex_db (user_id ex_driver) = Some ex_bus"
    by (simp add: ex_defs findBusOfDriver_def)
  have h4: "?drafts = map (studentData ex_toStudents ex_driver ex_bus) (studentsOfBus ex_db ex_bus) @
              [adminCopyData ex_toStudents ex_driver ex_bus (length (studentsOfBus ex_db ex_bus))]"
    by (simp add: ex_students numeral_2_eq_2)
  have empty: "notifications ex_db = []" by (simp add: ex_db_def)
  have p1: "persisted [] (take 1 ?drafts) = [stored ?s1 1]"
    by (simp add: newId_def Let_def)
  have p2: "persisted [] (take 2 ?drafts) = [stored ?s1 1, stored ?s2 2]"
    by (simp add: newId_def Let_def stored_fields numeral_2_eq_2)
  have a5: "1 < length ?drafts" by simp
  have a6: "\<forall>i<1. failAt 1 (notifications ex_db @ persisted (notifications ex_db) (take i ?drafts))
                  (?drafts ! i) = None"
    by (simp add: empty failAt_def)
  have a7: "failAt 1 (notifications ex_db @ persisted (notifications ex_db) (take 1 ?drafts))
              (?drafts ! 1) = Some ''connection lost''"
    unfolding empty append_Nil p1 by (simp add: failAt_def)
  have b5: "2 < length ?drafts" by simp
  have b6: "\<forall>i<2. failAt 2 (notifications ex_db @ persisted (notifications ex_db) (take i ?drafts))
                  (?drafts ! i) = None"
    unfolding empty append_Nil
    by (auto simp: less_Suc_eq numeral_2_eq_2 failAt_def Let_def)
  have b7: "failAt 2 (notifications ex_db @ persisted (notifications ex_db) (take 2 ?drafts))
              (?drafts ! 2) = Some ''connection lost''"
    unfolding empty append_Nil p2 by (simp add: failAt_def)
  note A = targeted_failure_keeps_created[OF h1 h2 h3 h4 a5 a6 a7, unfolded empty append_Nil p1]
  note B = targeted_failure_keeps_created[OF h1 h2 h3 h4 b5 b6 b7, unfolded empty append_Nil p2]
  from A B show ?thesis by (rule conjI)
qed

subsection \<open>Deleting a notification addressed to role all\<close>

lemma findByIdAndDelete_remove1:
  "find (\<lambda>n. nid n = i) ns = Some n \<Longrightarrow> findByIdAndDelete ns i = remove1 n ns"
proof (induction ns)
  case Nil
  then show ?case by simp
next
  case (Cons x xs)
  show ?case
  proof (cases "nid x = i")
    case True
    with Cons.prems have "n = x" by simp
    with True show ?thesis by simp
  next
    case False
    with Cons.prems have found: "find (\<lambda>n. nid n = i) xs = Some n" by simp
    then have "nid n = i" by (auto simp: find_Some_iff)
    with False have "x \<noteq> n" by auto
    with False Cons.IH[OF found] show ?thesis by simp
  qed
qed

text \<open>
  C10.  Whoever the viewer is, the delete check holds for a notification with
  \<^verbatim>\<open>receiverRole = 'all'\<close>; and when the notification found under an id has
  \<^verbatim>\<open>receiverRole = 'all'\<close>, \<^verbatim>\<open>deleteNotification\<close> answers 200 and removes exactly
  that document from the collection.  A tag \<^verbatim>\<open>metadata.intendedRole\<close> makes no
  difference.
\<close>

theorem anyone_may_delete_broadcast:
  "(receiverRole n = ''all'' \<longrightarrow> deleteNotification_hasAccess n u) \<and>
   (Notification_findById d i = Some n \<and> receiverRole n = ''all'' \<longrightarrow>
      deleteNotification d u i =
        (Responded \<lparr>status = 200, success = True,
                    resp_message = ''Notification deleted successfully'',
                    data = NoData, error = None\<rparr>,
         d\<lparr>notifications := remove1 n (notifications d)\<rparr>))"
proof (intro conjI impI)
  assume "receiverRole n = ''all''"
  then show "deleteNotification_hasAccess n u"
    by (simp add: deleteNotification_hasAccess_def)
next
  assume h: "Notification_findById d i = Some n \<and> receiverRole n = ''all''"
  then have acc: "deleteNotification_hasAccess n u"
    by (simp add: deleteNotification_hasAccess_def)
  from h have "findByIdAndDelete (notifications d) i = remove1 n (notifications d)"
    by (simp add: Notification_findById_def findByIdAndDelete_remove1)
  with h acc show "deleteNotification d u i =
        (Responded \<lparr>status = 200, success = True,
                    resp_message = ''Notification deleted successfully'',
                    data = NoData, error = None\<rparr>,
         d\<lparr>notifications := remove1 n (notifications d)\<rparr>)"
    by (simp add: deleteNotification_def)
qed

theorem anyone_may_delete_broadcast_witness:
  "deleteNotification ex_db_adminOnly ex_student1 1 =
     (Responded \<lparr>status = 200, success = True,
                 resp_message = ''Notification deleted successfully'',
                 data = NoData, error = None\<rparr>,
      ex_db)"
proof -
  let ?n = "stored (adminOnlyData ex_toAdmin ex_driver) 1"
  have h: "Notification_findById ex_db_adminOnly 1 = Some ?n \<and> receiverRole ?n = ''all''"
    by (simp add: ex_db_adminOnly_eq Notification_findById_def stored_fields adminOnlyData_def)
  have del: "ex_db_adminOnly\<lparr>notifications := remove1 ?n (notifications ex_db_adminOnly)\<rparr> = ex_db"
    by (simp add: ex_db_adminOnly_eq) (simp add: ex_db_def)
  show ?thesis
    using anyone_may_delete_broadcast[where n = ?n and d = ex_db_adminOnly and i = 1
        and u = ex_student1, THEN conjunct2, THEN mp, OF h]
    unfolding del .
qed

end
